theory Spec2Isabelle
  imports Complex_Main "HOL-Library.Sublist"
begin

section \<open>Floating-point values and Python errors\<close>

text \<open>
  The statistics of the Entropic Regression class (digamma values, mutual-information
  estimates, the tolerance) are IEEE doubles that may be infinite or NaN; the code relies
  on that (\<^verbatim>\<open>np.isfinite\<close>, \<^verbatim>\<open>np.nanmean\<close>, \<^verbatim>\<open>np.nanargmax\<close>, \<^verbatim>\<open>-np.inf\<close>).
  They are modelled as an exact real or one of the three special values; rounding is
  not modelled. The data (design matrix, target, distances) are finite reals.
\<close>

datatype fval = Fin real | PInf | NInf | NaN

datatype pyerror = ValueError | TypeError | IndexError | AttributeError

fun isfinite :: "fval \<Rightarrow> bool" where
  "isfinite (Fin _) = True"
| "isfinite _ = False"

fun isnan :: "fval \<Rightarrow> bool" where
  "isnan NaN = True"
| "isnan _ = False"

fun fneg :: "fval \<Rightarrow> fval" where
  "fneg (Fin a) = Fin (- a)"
| "fneg PInf = NInf"
| "fneg NInf = PInf"
| "fneg NaN = NaN"

fun fadd :: "fval \<Rightarrow> fval \<Rightarrow> fval" where
  "fadd NaN _ = NaN"
| "fadd _ NaN = NaN"
| "fadd (Fin a) (Fin b) = Fin (a + b)"
| "fadd PInf NInf = NaN"
| "fadd NInf PInf = NaN"
| "fadd PInf _ = PInf"
| "fadd _ PInf = PInf"
| "fadd NInf _ = NInf"
| "fadd _ NInf = NInf"

definition fsub :: "fval \<Rightarrow> fval \<Rightarrow> fval" where
  "fsub a b = fadd a (fneg b)"

text \<open>IEEE comparison: every comparison with NaN is false.\<close>

fun fle :: "fval \<Rightarrow> fval \<Rightarrow> bool" where
  "fle NaN _ = False"
| "fle _ NaN = False"
| "fle NInf _ = True"
| "fle _ PInf = True"
| "fle (Fin a) (Fin b) = (a \<le> b)"
| "fle (Fin _) NInf = False"
| "fle PInf _ = False"

fun flt :: "fval \<Rightarrow> fval \<Rightarrow> bool" where
  "flt NaN _ = False"
| "flt _ NaN = False"
| "flt PInf _ = False"
| "flt _ NInf = False"
| "flt NInf _ = True"
| "flt _ PInf = True"
| "flt (Fin a) (Fin b) = (a < b)"

definition fabs :: "fval \<Rightarrow> fval" where
  "fabs a = (case a of Fin r \<Rightarrow> Fin \<bar>r\<bar> | NaN \<Rightarrow> NaN | _ \<Rightarrow> PInf)"

section \<open>Construction: \<^verbatim>\<open>__init__\<close> and \<^verbatim>\<open>_validate_params\<close>\<close>

text \<open>
  The constructor receives arbitrary Python objects. Only the distinctions the validation
  makes are kept: \<^verbatim>\<open>bool\<close> is a subclass of \<^verbatim>\<open>int\<close> (so \<^verbatim>\<open>isinstance(True, int)\<close> holds and
  \<^verbatim>\<open>True < 1\<close> compares as 1), a float may be NaN or infinite, and anything else
  (string, list, None, other objects) is not a number.
\<close>

datatype pyval =
    PyInt int
  | PyBool bool
  | PyFloat fval
  | PyStr string
  | PyList "pyval list"
  | PyNone

fun isinstance_int :: "pyval \<Rightarrow> bool" where
  "isinstance_int (PyInt _) = True"
| "isinstance_int (PyBool _) = True"
| "isinstance_int _ = False"

fun isinstance_float :: "pyval \<Rightarrow> bool" where
  "isinstance_float (PyFloat _) = True"
| "isinstance_float _ = False"

fun isinstance_bool :: "pyval \<Rightarrow> bool" where
  "isinstance_bool (PyBool _) = True"
| "isinstance_bool _ = False"

fun isinstance_list :: "pyval \<Rightarrow> bool" where
  "isinstance_list (PyList _) = True"
| "isinstance_list _ = False"

text \<open>The numeric value Python compares with: only called on numbers.\<close>

fun num_of :: "pyval \<Rightarrow> fval" where
  "num_of (PyInt i) = Fin (real_of_int i)"
| "num_of (PyBool b) = Fin (if b then 1 else 0)"
| "num_of (PyFloat f) = f"
| "num_of _ = NaN"

text \<open>
  Every message is built with \<^verbatim>\<open>"... %f" % value\<close>, which itself raises TypeError when the
  value is not a number: the exception that leaves the validation is then a TypeError
  instead of the intended one.
\<close>

definition raise_fmt_f :: "pyerror \<Rightarrow> pyval \<Rightarrow> pyerror" where
  "raise_fmt_f e v =
     (if isinstance_int v \<or> isinstance_float v then e else TypeError)"

record er_params =
  p_ylag :: pyval
  p_xlag :: pyval
  p_k :: pyval
  p_n_perm :: pyval
  p_q :: pyval
  p_skip_forward :: pyval
  p_extended_least_squares :: pyval
  p_model_type :: pyval

definition validate_params :: "er_params \<Rightarrow> pyerror option" where
  "validate_params c =
     (if isinstance_int (p_ylag c) \<and> flt (num_of (p_ylag c)) (Fin 1)
        then Some (raise_fmt_f ValueError (p_ylag c))
      else if isinstance_int (p_xlag c) \<and> flt (num_of (p_xlag c)) (Fin 1)
        then Some (raise_fmt_f ValueError (p_xlag c))
      else if \<not> (isinstance_int (p_xlag c) \<or> isinstance_list (p_xlag c))
        then Some (raise_fmt_f ValueError (p_xlag c))
      else if \<not> (isinstance_int (p_ylag c) \<or> isinstance_list (p_ylag c))
        then Some (raise_fmt_f ValueError (p_ylag c))
      else if \<not> isinstance_int (p_k c) \<or> flt (num_of (p_k c)) (Fin 1)
        then Some (raise_fmt_f ValueError (p_k c))
      else if \<not> isinstance_int (p_n_perm c) \<or> flt (num_of (p_n_perm c)) (Fin 1)
        then Some (raise_fmt_f ValueError (p_n_perm c))
      else if \<not> isinstance_float (p_q c) \<or> flt (Fin 1) (num_of (p_q c))
                \<or> fle (num_of (p_q c)) (Fin 0)
        then Some (raise_fmt_f ValueError (p_q c))
      else if \<not> isinstance_bool (p_skip_forward c)
        then Some (raise_fmt_f TypeError (p_skip_forward c))
      else if \<not> isinstance_bool (p_extended_least_squares c)
        then Some (raise_fmt_f TypeError (p_extended_least_squares c))
      else if p_model_type c \<notin> {PyStr ''NARMAX'', PyStr ''NAR'', PyStr ''NFIR''}
        then Some ValueError
      else None)"

section \<open>Library functions the class calls\<close>

text \<open>
  numpy and scipy are not part of the repository. What the code needs from them is either
  written out from their documented meaning (Minkowski distance, sorting, quantile with
  linear interpolation, argmin, nanargmax) or, where the result is not determined by the
  documentation or is a transcendental function, taken as a parameter:
  \<^item> \<open>psi\<close>: \<^verbatim>\<open>scipy.special.psi\<close> (digamma) at the integer arguments the code passes;
  \<^item> \<open>argpartition\<close>: \<^verbatim>\<open>np.argpartition(a, kth)\<close>, whose order inside the two parts is
    unspecified;
  \<^item> \<open>pinv_fit\<close>: \<open>pinv_fit A y\<close> is \<^verbatim>\<open>A @ LA.pinv(A) @ y\<close>;
  \<^item> \<open>permutation\<close>: \<^verbatim>\<open>rng.permutation(y)\<close>, returning the shuffled rows and the advanced
    generator state;
  \<^item> \<open>estimator\<close>: the coefficient estimator of the inherited \<^verbatim>\<open>Estimators\<close> class that
    \<^verbatim>\<open>getattr(self, self.estimator)\<close> selects, applied to the chosen columns and the
    untrimmed target.
\<close>

type_synonym array2 = "real list list"

record 'g numlib =
  psi :: "int \<Rightarrow> fval"
  argpartition :: "real list \<Rightarrow> nat \<Rightarrow> nat list"
  pinv_fit :: "array2 \<Rightarrow> array2 \<Rightarrow> array2"
  permutation :: "'g \<Rightarrow> array2 \<Rightarrow> array2 \<times> 'g"
  estimator :: "array2 \<Rightarrow> array2 \<Rightarrow> pyerror + real list"

datatype porder = P_inf | P_fin real

text \<open>\<^verbatim>\<open>scipy.spatial.distance.minkowski\<close>; order infinity is the Chebyshev distance.\<close>

fun minkowski :: "porder \<Rightarrow> real list \<Rightarrow> real list \<Rightarrow> real" where
  "minkowski P_inf u v = fold max (map2 (\<lambda>a b. \<bar>a - b\<bar>) u v) 0"
| "minkowski (P_fin p) u v = (sum_list (map2 (\<lambda>a b. \<bar>a - b\<bar> powr p) u v)) powr (1 / p)"

text \<open>\<^verbatim>\<open>cdist(A, B, "minkowski", p=p)\<close>: entry \<open>i, j\<close> is the distance from row \<open>i\<close> of \<open>A\<close>
  to row \<open>j\<close> of \<open>B\<close>.\<close>

definition cdist :: "porder \<Rightarrow> array2 \<Rightarrow> array2 \<Rightarrow> array2" where
  "cdist p A B = map (\<lambda>a. map (\<lambda>b. minkowski p a b) B) A"

text \<open>\<^verbatim>\<open>cdist(A, B).T\<close>: row \<open>j\<close> holds the distances from every row of \<open>A\<close> to row \<open>j\<close>
  of \<open>B\<close>.\<close>

definition cdist_T :: "porder \<Rightarrow> array2 \<Rightarrow> array2 \<Rightarrow> array2" where
  "cdist_T p A B = map (\<lambda>b. map (\<lambda>a. minkowski p a b) A) B"

text \<open>\<^verbatim>\<open>np.concatenate([A, B], axis=1)\<close> of arrays with the same number of rows.\<close>

definition hstack :: "array2 \<Rightarrow> array2 \<Rightarrow> array2" where
  "hstack A B = map2 (@) A B"

definition the_real :: "fval \<Rightarrow> real" where
  "the_real a = (case a of Fin r \<Rightarrow> r | _ \<Rightarrow> 0)"

text \<open>\<^verbatim>\<open>np.nanmean(arr[np.isfinite(arr)])\<close>: the mean of the finite entries, NaN (with a
  warning) when there is none.\<close>

definition finite_mean :: "fval list \<Rightarrow> fval" where
  "finite_mean arr =
     (let fs = filter isfinite arr
      in if fs = [] then NaN
         else Fin (sum_list (map the_real fs) / real (length fs)))"

section \<open>The nearest-neighbour radius\<close>

text \<open>
  Lines 270-276 and 447-453:
  \<^verbatim>\<open>
  smallest_distance = np.sort(cdist(joint_space, joint_space, "minkowski", p=self.p).T)
  idx = np.argpartition(smallest_distance[-1, :], self.k + 1)[: self.k + 1]
  smallest_distance = smallest_distance[:, idx]
  epsilon = smallest_distance[:, -1].reshape(-1, 1)
  \<close>
  Every row is sorted; the column indices are chosen once, from the last row; the radius
  of sample \<open>i\<close> is the entry of sorted row \<open>i\<close> in the last chosen column. An empty
  array has no last row (IndexError) and \<^verbatim>\<open>kth\<close> must be below the row length (ValueError).
\<close>

definition knn_epsilon ::
  "('g, 'z) numlib_scheme \<Rightarrow> porder \<Rightarrow> nat \<Rightarrow> array2 \<Rightarrow> pyerror + real list" where
  "knn_epsilon lib p k joint_space =
     (let smallest_distance = map sort (cdist_T p joint_space joint_space)
      in if smallest_distance = [] then Inl IndexError
         else if length (last smallest_distance) \<le> k + 1 then Inl ValueError
         else
           (let idx = take (k + 1) (argpartition lib (last smallest_distance) (k + 1))
            in if idx = [] \<or> (\<exists>j \<in> set idx. length joint_space \<le> j) then Inl IndexError
               else Inr (map (\<lambda>row. row ! last idx) smallest_distance)))"

text \<open>\<^verbatim>\<open>np.sum((D < epsilon).astype(int), axis=1) - 1\<close>: row \<open>i\<close> of \<open>D\<close> is compared with
  the radius of sample \<open>i\<close>.\<close>

definition count_within :: "array2 \<Rightarrow> real list \<Rightarrow> int list" where
  "count_within D epsilon =
     map2 (\<lambda>row e. int (length (filter (\<lambda>d. d < e) row)) - 1) D epsilon"

section \<open>The two estimators\<close>

definition mutual_information_knn ::
  "('g, 'z) numlib_scheme \<Rightarrow> porder \<Rightarrow> nat \<Rightarrow> array2 \<Rightarrow> array2 \<Rightarrow> pyerror + fval" where
  "mutual_information_knn lib p k y y_perm =
     (if length y \<noteq> length y_perm then Inl ValueError
      else case knn_epsilon lib p k (hstack y y_perm) of
        Inl e \<Rightarrow> Inl e
      | Inr epsilon \<Rightarrow>
          (let nx = count_within (cdist p y y) epsilon;
               ny = count_within (cdist p y_perm y_perm) epsilon;
               arr = map2 (\<lambda>a b. fadd (psi lib (a + 1)) (psi lib (b + 1))) nx ny
           in Inr (fsub (fadd (psi lib (int k)) (psi lib (int (length y))))
                        (finite_mean arr))))"

definition conditional_mutual_information ::
  "('g, 'z) numlib_scheme \<Rightarrow> porder \<Rightarrow> nat \<Rightarrow> array2 \<Rightarrow> array2 \<Rightarrow> array2 \<Rightarrow> pyerror + fval" where
  "conditional_mutual_information lib p k y f1 f2 =
     (if length y \<noteq> length f1 \<or> length y \<noteq> length f2 then Inl ValueError
      else case knn_epsilon lib p k (hstack (hstack y f1) f2) of
        Inl e \<Rightarrow> Inl e
      | Inr epsilon \<Rightarrow>
          (let y_f2 = count_within (cdist p (hstack y f2) (hstack y f2)) epsilon;
               f1_f2 = count_within (cdist p (hstack f1 f2) (hstack f1 f2)) epsilon;
               f2_f2 = count_within (cdist p f2 f2) epsilon;
               arr = map2 (\<lambda>a (b, c).
                       fsub (fadd (psi lib (a + 1)) (psi lib (b + 1))) (psi lib (c + 1)))
                     y_f2 (zip f1_f2 f2_f2)
           in Inr (fsub (psi lib (int k)) (finite_mean arr))))"

section \<open>Aggregations over arrays of estimates\<close>

fun fmul :: "fval \<Rightarrow> real \<Rightarrow> fval" where
  "fmul (Fin a) t = Fin (a * t)"
| "fmul NaN t = NaN"
| "fmul PInf t = (if t = 0 then NaN else if 0 < t then PInf else NInf)"
| "fmul NInf t = (if t = 0 then NaN else if 0 < t then NInf else PInf)"

text \<open>Ascending insertion sort of an array without NaN (\<open>NInf\<close> first, \<open>PInf\<close> last).\<close>

fun finsert :: "fval \<Rightarrow> fval list \<Rightarrow> fval list" where
  "finsert a [] = [a]"
| "finsert a (b # bs) = (if fle a b then a # b # bs else b # finsert a bs)"

definition fsort :: "fval list \<Rightarrow> fval list" where
  "fsort xs = foldr finsert xs []"

text \<open>
  \<^verbatim>\<open>np.quantile(a, q)\<close> with the default method (linear interpolation between the two
  order statistics around the virtual index \<open>q * (n - 1)\<close>): a quantile outside \<open>[0, 1]\<close>
  (NaN included) raises ValueError, an array holding a NaN gives NaN. The interpolation is
  numpy's: \<open>a + (b - a) * t\<close>, replaced by \<open>b - (b - a) * (1 - t)\<close> when \<open>t \<ge> 1/2\<close>.
\<close>

definition lerp :: "fval \<Rightarrow> fval \<Rightarrow> real \<Rightarrow> fval" where
  "lerp a b t =
     (if 1 / 2 \<le> t then fsub b (fmul (fsub b a) (1 - t))
      else fadd a (fmul (fsub b a) t))"

definition quantile :: "fval list \<Rightarrow> fval \<Rightarrow> pyerror + fval" where
  "quantile a q =
     (case q of
        Fin r \<Rightarrow>
          if \<not> (0 \<le> r \<and> r \<le> 1) then Inl ValueError
          else if a = [] \<or> (\<exists>x \<in> set a. isnan x) then Inr NaN
          else
            (let s = fsort a;
                 h = r * real (length a - 1);
                 lo = nat \<lfloor>h\<rfloor>;
                 hi = min (lo + 1) (length a - 1)
             in Inr (lerp (s ! lo) (s ! hi) (h - real lo)))
      | _ \<Rightarrow> Inl ValueError)"

text \<open>Position of the first entry satisfying a predicate.\<close>

fun first_index :: "('a \<Rightarrow> bool) \<Rightarrow> 'a list \<Rightarrow> nat" where
  "first_index P [] = 0"
| "first_index P (x # xs) = (if P x then 0 else Suc (first_index P xs))"

text \<open>\<^verbatim>\<open>np.argmin\<close>: the first NaN when there is one, else the first smallest entry.\<close>

definition argmin :: "fval list \<Rightarrow> nat" where
  "argmin xs =
     (if \<exists>x \<in> set xs. isnan x then first_index isnan xs
      else first_index (\<lambda>x. \<forall>y \<in> set xs. fle x y) xs)"

text \<open>\<^verbatim>\<open>np.nanargmax\<close>: ValueError on an empty or all-NaN array; else NaN counts as
  \<open>-inf\<close> and the first largest entry wins.\<close>

definition nan_to_ninf :: "fval \<Rightarrow> fval" where
  "nan_to_ninf x = (if isnan x then NInf else x)"

definition nanargmax :: "fval list \<Rightarrow> pyerror + nat" where
  "nanargmax xs =
     (if xs = [] \<or> (\<forall>x \<in> set xs. isnan x) then Inl ValueError
      else Inr (first_index (\<lambda>x. \<forall>y \<in> set xs. fle (nan_to_ninf y) (nan_to_ninf x)) xs))"

text \<open>The first exception of a sequence of computations, or all their results.\<close>

fun sequence :: "(pyerror + 'a) list \<Rightarrow> pyerror + 'a list" where
  "sequence [] = Inr []"
| "sequence (Inl e # _) = Inl e"
| "sequence (Inr a # rest) = (case sequence rest of Inl e \<Rightarrow> Inl e | Inr as \<Rightarrow> Inr (a # as))"

section \<open>Column selection and least-squares projection\<close>

definition n_columns :: "array2 \<Rightarrow> nat" where
  "n_columns R = (case R of [] \<Rightarrow> 0 | row # _ \<Rightarrow> length row)"

text \<open>\<^verbatim>\<open>reg_matrix[:, js]\<close>.\<close>

definition columns :: "array2 \<Rightarrow> nat list \<Rightarrow> pyerror + array2" where
  "columns R js =
     (if \<exists>j \<in> set js. n_columns R \<le> j then Inl IndexError
      else Inr (map (\<lambda>row. map (\<lambda>j. row ! j) js) R))"

text \<open>\<^verbatim>\<open>reg_matrix[:, js] @ LA.pinv(reg_matrix[:, js]) @ y\<close>.\<close>

definition project ::
  "('g, 'z) numlib_scheme \<Rightarrow> array2 \<Rightarrow> nat list \<Rightarrow> array2 \<Rightarrow> pyerror + array2" where
  "project lib R js y =
     (case columns R js of Inl e \<Rightarrow> Inl e | Inr A \<Rightarrow> Inr (pinv_fit lib A y))"

definition zeros_like :: "array2 \<Rightarrow> array2" where
  "zeros_like y = map (map (\<lambda>_. 0)) y"

section \<open>The configured instance\<close>

text \<open>
  The parameters as the algorithms read them once the constructor has accepted them, and
  the attributes a fit call reads or assigns. The random generator is created once, at
  construction, and every permutation drawn advances it.
\<close>

record er_config =
  cfg_k :: nat
  cfg_n_perm :: nat
  cfg_q :: fval
  cfg_p :: porder
  cfg_h :: real
  cfg_skip_forward :: bool

record 'g er_model =
  rng :: 'g
  tol :: fval
  estimated_tolerance :: fval
  regressor_code :: "int list list"
  final_model :: "int list list"
  theta :: "real list"
  n_terms :: nat
  err :: "nat list"
  pivv :: "nat list"
  max_lag :: nat

section \<open>Tolerance estimator\<close>

text \<open>
  The loop of lines 514-519, which lines 610-614 of \<^verbatim>\<open>fit\<close> repeat: \<open>n\<close> times, shuffle
  \<open>y\<close> with the instance's generator and estimate the mutual information of \<open>y\<close> and
  the shuffled copy.
\<close>

fun permutation_estimates ::
  "('g, 'z) numlib_scheme \<Rightarrow> er_config \<Rightarrow> nat \<Rightarrow> 'g \<Rightarrow> array2 \<Rightarrow> pyerror + (fval list \<times> 'g)" where
  "permutation_estimates lib cfg 0 g y = Inr ([], g)"
| "permutation_estimates lib cfg (Suc n) g y =
     (case permutation lib g y of (y_perm, g') \<Rightarrow>
        (case mutual_information_knn lib (cfg_p cfg) (cfg_k cfg) y y_perm of
           Inl e \<Rightarrow> Inl e
         | Inr mutual_information_output \<Rightarrow>
             (case permutation_estimates lib cfg n g' y of
                Inl e \<Rightarrow> Inl e
              | Inr (ksg_estimation, g'') \<Rightarrow>
                  Inr (mutual_information_output # ksg_estimation, g''))))"

definition tolerance_estimator ::
  "('g, 'z) numlib_scheme \<Rightarrow> er_config \<Rightarrow> 'g \<Rightarrow> array2 \<Rightarrow> pyerror + (fval \<times> 'g)" where
  "tolerance_estimator lib cfg g y =
     (case permutation_estimates lib cfg (cfg_n_perm cfg) g y of
        Inl e \<Rightarrow> Inl e
      | Inr (ksg_estimation, g') \<Rightarrow>
          (case quantile ksg_estimation (cfg_q cfg) of
             Inl e \<Rightarrow> Inl e
           | Inr t \<Rightarrow> Inr (t, g')))"

section \<open>Backward elimination\<close>

text \<open>\<^verbatim>\<open>np.setdiff1d(piv, v)\<close>: the sorted distinct values of \<open>piv\<close> other than \<open>v\<close>.\<close>

definition setdiff1d :: "nat list \<Rightarrow> nat \<Rightarrow> nat list" where
  "setdiff1d piv v = sort (remdups (filter (\<lambda>x. x \<noteq> v) piv))"

text \<open>\<^verbatim>\<open>np.delete(piv, ix)\<close> for an index in range.\<close>

definition delete :: "'a list \<Rightarrow> nat \<Rightarrow> 'a list" where
  "delete piv ix = take ix piv @ drop (Suc ix) piv"

text \<open>The \<^verbatim>\<open>for\<close> loop of lines 315-321: one conditional mutual information per position.\<close>

definition backward_round ::
  "('g, 'z) numlib_scheme \<Rightarrow> er_config \<Rightarrow> array2 \<Rightarrow> array2 \<Rightarrow> nat list \<Rightarrow> pyerror + fval list" where
  "backward_round lib cfg reg_matrix y piv =
     sequence (map (\<lambda>i.
        (let rem = setdiff1d piv (piv ! i)
         in case project lib reg_matrix piv y of
              Inl e \<Rightarrow> Inl e
            | Inr f1 \<Rightarrow>
                (case project lib reg_matrix rem y of
                   Inl e \<Rightarrow> Inl e
                 | Inr f2 \<Rightarrow>
                     conditional_mutual_information lib (cfg_p cfg) (cfg_k cfg) y f1 f2)))
        [0..<length piv])"

text \<open>The \<^verbatim>\<open>while\<close> loop of lines 314-325; \<^verbatim>\<open>np.delete\<close> raises IndexError out of range.\<close>

function backward_loop ::
  "('g, 'z) numlib_scheme \<Rightarrow> er_config \<Rightarrow> fval \<Rightarrow> array2 \<Rightarrow> array2 \<Rightarrow> fval \<Rightarrow> nat list
     \<Rightarrow> pyerror + nat list" where
  "backward_loop lib cfg t reg_matrix y min_value piv =
     (if fle min_value t \<and> 1 < length piv then
        (case backward_round lib cfg reg_matrix y piv of
           Inl e \<Rightarrow> Inl e
         | Inr initial_array \<Rightarrow>
             (if argmin initial_array < length piv
              then backward_loop lib cfg t reg_matrix y
                     (initial_array ! argmin initial_array) (delete piv (argmin initial_array))
              else Inl IndexError))
      else Inr piv)"
  by pat_completeness auto
termination
  by (relation "measure (\<lambda>(lib, cfg, t, reg_matrix, y, min_value, piv). length piv)")
     (auto simp: delete_def)

declare backward_loop.simps [simp del]

definition entropic_regression_backward ::
  "('g, 'z) numlib_scheme \<Rightarrow> er_config \<Rightarrow> fval \<Rightarrow> array2 \<Rightarrow> array2 \<Rightarrow> nat list
     \<Rightarrow> pyerror + nat list" where
  "entropic_regression_backward lib cfg t reg_matrix y piv =
     backward_loop lib cfg t reg_matrix y NInf piv"

section \<open>Forward selection\<close>

datatype decision = Stop bool | Continue nat

text \<open>
  One pass of the \<^verbatim>\<open>while\<close> body of lines 363-409, after \<^verbatim>\<open>selected_terms\<close> has been
  extended: the local estimate, the gain of every column not yet selected (\<open>-inf\<close> for
  the others), the best column, and the decision. \<open>Stop success\<close> ends the loop.
\<close>

definition candidate_gains ::
  "('g, 'z) numlib_scheme \<Rightarrow> er_config \<Rightarrow> array2 \<Rightarrow> array2 \<Rightarrow> nat list \<Rightarrow> pyerror + fval list" where
  "candidate_gains lib cfg reg_matrix y selected_terms =
     sequence (map (\<lambda>i.
        if i \<notin> set selected_terms then
          (case project lib reg_matrix (selected_terms @ [i]) y of
             Inl e \<Rightarrow> Inl e
           | Inr f1 \<Rightarrow>
               (case (if selected_terms \<noteq> [] then project lib reg_matrix selected_terms y
                      else Inr (zeros_like y)) of
                  Inl e \<Rightarrow> Inl e
                | Inr f2 \<Rightarrow>
                    conditional_mutual_information lib (cfg_p cfg) (cfg_k cfg) y f1 f2))
        else Inr NInf)
        [0..<n_columns reg_matrix])"

definition forward_round ::
  "('g, 'z) numlib_scheme \<Rightarrow> er_config \<Rightarrow> fval \<Rightarrow> array2 \<Rightarrow> array2 \<Rightarrow> fval \<Rightarrow> nat list
     \<Rightarrow> pyerror + decision" where
  "forward_round lib cfg t reg_matrix y ksg_max selected_terms =
     (case (if selected_terms \<noteq> [] then project lib reg_matrix selected_terms y
            else Inr (zeros_like y)) of
        Inl e \<Rightarrow> Inl e
      | Inr fitted \<Rightarrow>
     (case mutual_information_knn lib (cfg_p cfg) (cfg_k cfg) y fitted of
        Inl e \<Rightarrow> Inl e
      | Inr ksg_local \<Rightarrow>
     (case candidate_gains lib cfg reg_matrix y selected_terms of
        Inl e \<Rightarrow> Inl e
      | Inr initial_vector \<Rightarrow>
     (case nanargmax initial_vector of
        Inl e \<Rightarrow> Inl e
      | Inr ix \<Rightarrow>
          (let max_value = initial_vector ! ix
           in if fle (fsub ksg_max ksg_local) t \<or> fle max_value t then Inr (Stop True)
              else if max 8 (real (n_columns reg_matrix) / 2) < real (length selected_terms)
                then Inr (Stop False)
              else Inr (Continue ix))))))"

function forward_loop ::
  "('g, 'z) numlib_scheme \<Rightarrow> er_config \<Rightarrow> fval \<Rightarrow> array2 \<Rightarrow> array2 \<Rightarrow> fval \<Rightarrow> nat list
     \<Rightarrow> nat option \<Rightarrow> pyerror + (nat list \<times> bool)" where
  "forward_loop lib cfg t reg_matrix y ksg_max selected_terms ix =
     (case forward_round lib cfg t reg_matrix y ksg_max
             (selected_terms @ (case ix of None \<Rightarrow> [] | Some i \<Rightarrow> [i])) of
        Inl e \<Rightarrow> Inl e
      | Inr (Stop success) \<Rightarrow>
          Inr (selected_terms @ (case ix of None \<Rightarrow> [] | Some i \<Rightarrow> [i]), success)
      | Inr (Continue ix') \<Rightarrow>
          forward_loop lib cfg t reg_matrix y ksg_max
            (selected_terms @ (case ix of None \<Rightarrow> [] | Some i \<Rightarrow> [i])) (Some ix'))"
  by pat_completeness auto

text \<open>The loop goes on only while the selection is within the growth bound, so it ends.\<close>

lemma forward_round_Continue:
  "forward_round lib cfg t R y ksg_max sel = Inr (Continue i) \<Longrightarrow>
   length sel \<le> nat \<lfloor>max 8 (real (n_columns R) / 2)\<rfloor>"
  unfolding forward_round_def Let_def
  by (auto split: sum.splits if_splits simp: le_nat_floor)

termination forward_loop
  apply (relation "measure (\<lambda>(lib, cfg, t, R, y, ksg_max, sel, ix).
           2 * (nat \<lfloor>max 8 (real (n_columns R) / 2)\<rfloor> + 1 - length sel)
           - (case ix of None \<Rightarrow> 0 | Some _ \<Rightarrow> 1))")
   apply simp
  subgoal for lib cfg t R y ksg_max sel ix x2 x2a
    using forward_round_Continue[of lib cfg t R y ksg_max
            "sel @ (case ix of None \<Rightarrow> [] | Some i \<Rightarrow> [i])" x2a]
    by (cases ix) (simp_all, linarith+)
  done

declare forward_loop.simps [simp del]

text \<open>
  Lines 354-362 and 411: the tolerance is estimated again, from fresh permutations, and
  assigned to \<^verbatim>\<open>self.tol\<close>; the loop starts from the empty selection with no last index.
  The result carries the new \<^verbatim>\<open>self.tol\<close> and the advanced generator.
\<close>

definition entropic_regression_forward ::
  "('g, 'z) numlib_scheme \<Rightarrow> er_config \<Rightarrow> 'g \<Rightarrow> array2 \<Rightarrow> array2
     \<Rightarrow> pyerror + ((nat list \<times> bool) \<times> fval \<times> 'g)" where
  "entropic_regression_forward lib cfg g reg_matrix y =
     (case tolerance_estimator lib cfg g y of
        Inl e \<Rightarrow> Inl e
      | Inr (t, g') \<Rightarrow>
     (case mutual_information_knn lib (cfg_p cfg) (cfg_k cfg) y (pinv_fit lib reg_matrix y) of
        Inl e \<Rightarrow> Inl e
      | Inr ksg_max \<Rightarrow>
     (case forward_loop lib cfg t reg_matrix y ksg_max [] None of
        Inl e \<Rightarrow> Inl e
      | Inr r \<Rightarrow> Inr (r, t, g'))))"

section \<open>The fit-time driver\<close>

text \<open>
  Lines 560-604 call collaborators that are not part of this class (lag matrices, basis
  expansion, regressor space). A fit input holds what they returned for the given
  \<^verbatim>\<open>X\<close> and \<^verbatim>\<open>y\<close>: the design matrix, the regressor code table, the maximum lag,
  whether the basis function is \<^verbatim>\<open>Polynomial\<close>, and for another basis its
  \<^verbatim>\<open>ensemble\<close> flag and \<^verbatim>\<open>repetition\<close>. \<^verbatim>\<open>y\<close> may be \<^verbatim>\<open>None\<close>.
\<close>

record fit_input =
  in_y :: "array2 option"
  in_reg_matrix :: array2
  in_regressor_code :: "int list list"
  in_max_lag :: nat
  in_polynomial :: bool
  in_ensemble :: bool
  in_repetition :: nat

text \<open>\<^verbatim>\<open>np.sort(np.tile(code, (repetition, 1)), axis=0)\<close>: every column sorted on its own.\<close>

definition sort_tile :: "int list list \<Rightarrow> nat \<Rightarrow> int list list" where
  "sort_tile code repetition = transpose (map sort (transpose (concat (replicate repetition code))))"

text \<open>\<^verbatim>\<open>code[final_model, :]\<close>.\<close>

definition take_rows :: "'a list \<Rightarrow> nat list \<Rightarrow> pyerror + 'a list" where
  "take_rows code js =
     (if \<exists>j \<in> set js. length code \<le> j then Inl IndexError
      else Inr (map (\<lambda>j. code ! j) js))"

text \<open>
  Lines 630-633. \<^verbatim>\<open>entropic_regression_backward\<close> returns \<^verbatim>\<open>np.array(piv)\<close>, which for an
  empty \<^verbatim>\<open>piv\<close> is an empty array of floats, and an array of floats is not accepted as an
  index: the composition raises IndexError when nothing was selected.
\<close>

definition compose_final :: "nat list \<Rightarrow> nat list \<Rightarrow> pyerror + nat list" where
  "compose_final selected_terms selected_terms_backward =
     (if selected_terms_backward = [] then Inl IndexError
      else case take_rows selected_terms selected_terms_backward of
        Inl e \<Rightarrow> Inl e
      | Inr final \<Rightarrow> Inr (if 0 \<notin> set final then 0 # final else final))"

text \<open>Lines 635-653: the table the final model is read from.\<close>

definition final_code_table :: "fit_input \<Rightarrow> int list list" where
  "final_code_table inp =
     (if in_polynomial inp then in_regressor_code inp
      else if in_ensemble inp then
        tl (in_regressor_code inp) @ sort_tile (tl (in_regressor_code inp)) (in_repetition inp)
      else sort_tile (tl (in_regressor_code inp)) (in_repetition inp))"

text \<open>Lines 655-670: estimation, the pruning of the first coefficient, the attributes.\<close>

definition finish_fit ::
  "('g, 'z) numlib_scheme \<Rightarrow> er_config \<Rightarrow> fit_input \<Rightarrow> array2 \<Rightarrow> 'g er_model \<Rightarrow> nat list
     \<Rightarrow> pyerror + 'g er_model" where
  "finish_fit lib cfg inp y_full m final =
     (case take_rows (final_code_table inp) final of
        Inl e \<Rightarrow> Inl e
      | Inr rows \<Rightarrow>
     (case columns (in_reg_matrix inp) final of
        Inl e \<Rightarrow> Inl e
      | Inr A \<Rightarrow>
     (case estimator lib A y_full of
        Inl e \<Rightarrow> Inl e
      | Inr th \<Rightarrow>
          if th = [] then Inl IndexError
          else if \<bar>hd th\<bar> < cfg_h cfg \<and> 1 < length (filter (\<lambda>c. c \<noteq> 0) th)
          then Inr (m\<lparr>regressor_code := final_code_table inp, final_model := tl rows,
                      theta := tl th, n_terms := length (tl th),
                      err := replicate (length (tl th)) 0, pivv := tl final\<rparr>)
          else Inr (m\<lparr>regressor_code := final_code_table inp, final_model := rows,
                      theta := th, n_terms := length th,
                      err := replicate (length th) 0, pivv := final\<rparr>))))"

text \<open>
  Lines 606-628: the warm-up rows are dropped, the tolerance is taken from \<open>n_perm\<close>
  permutations and stored in \<^verbatim>\<open>self.tol\<close> and \<^verbatim>\<open>self.estimated_tolerance\<close>, the forward
  selector runs unless skipped, and the backward eliminator runs on the selected columns
  with whatever \<^verbatim>\<open>self.tol\<close> holds by then.
\<close>

definition select_terms ::
  "('g, 'z) numlib_scheme \<Rightarrow> er_config \<Rightarrow> fit_input \<Rightarrow> array2 \<Rightarrow> 'g er_model
     \<Rightarrow> pyerror + (nat list \<times> 'g er_model)" where
  "select_terms lib cfg inp y m =
     (case permutation_estimates lib cfg (cfg_n_perm cfg) (rng m) y of
        Inl e \<Rightarrow> Inl e
      | Inr (ksg_estimation, g1) \<Rightarrow>
     (case quantile ksg_estimation (cfg_q cfg) of
        Inl e \<Rightarrow> Inl e
      | Inr t1 \<Rightarrow>
     (case (if \<not> cfg_skip_forward cfg
            then entropic_regression_forward lib cfg g1 (in_reg_matrix inp) y
            else Inr (([], False), t1, g1)) of
        Inl e \<Rightarrow> Inl e
      | Inr ((forward_terms, success), t2, g2) \<Rightarrow>
          (let selected_terms =
                 (if \<not> success \<or> cfg_skip_forward cfg
                  then [0..<n_columns (in_reg_matrix inp)] else forward_terms);
               m' = m\<lparr>rng := g2, tol := t2, estimated_tolerance := t1,
                       max_lag := in_max_lag inp\<rparr>
           in case columns (in_reg_matrix inp) selected_terms of
                Inl e \<Rightarrow> Inl e
              | Inr narrowed \<Rightarrow>
                  (case entropic_regression_backward lib cfg t2 narrowed y
                          [0..<length selected_terms] of
                     Inl e \<Rightarrow> Inl e
                   | Inr selected_terms_backward \<Rightarrow>
                       (case compose_final selected_terms selected_terms_backward of
                          Inl e \<Rightarrow> Inl e
                        | Inr final \<Rightarrow> Inr (final, m')))))))"

definition fit ::
  "('g, 'z) numlib_scheme \<Rightarrow> er_config \<Rightarrow> 'g er_model \<Rightarrow> fit_input \<Rightarrow> pyerror + 'g er_model" where
  "fit lib cfg m inp =
     (case in_y inp of
        None \<Rightarrow> Inl ValueError
      | Some y_full \<Rightarrow>
          (case select_terms lib cfg inp (drop (in_max_lag inp) y_full) m of
             Inl e \<Rightarrow> Inl e
           | Inr (final, m') \<Rightarrow> finish_fit lib cfg inp y_full m' final))"

section \<open>How a fit advances the generator\<close>

text \<open>
  Every \<^verbatim>\<open>self.rng.permutation(y)\<close> (lines 517 and 613) moves the instance's generator
  to its next state. \<^verbatim>\<open>fit\<close> draws \<open>n_perm\<close> permutations itself and, unless the forward
  selector is skipped, the forward selector's tolerance estimate draws as many again.
\<close>

definition draw :: "('g, 'z) numlib_scheme \<Rightarrow> array2 \<Rightarrow> 'g \<Rightarrow> 'g" where
  "draw lib y g = snd (permutation lib g y)"

definition draws_per_fit :: "er_config \<Rightarrow> nat" where
  "draws_per_fit cfg = (if cfg_skip_forward cfg then cfg_n_perm cfg else 2 * cfg_n_perm cfg)"

section \<open>The constructor\<close>

text \<open>
  Lines 171-197. Before the validation runs, the constructor reads
  \<^verbatim>\<open>basis_function.degree\<close> (AttributeError for the default \<^verbatim>\<open>basis_function=None\<close>), calls
  \<^verbatim>\<open>_get_max_lag\<close> and \<^verbatim>\<open>check_random_state\<close>; after it, the inherited constructor. These
  three are not part of this class: an environment gives what they return or raise for
  the arguments at hand.
\<close>

record 'g init_env =
  basis_degree :: "nat option"
  get_max_lag :: "pyval \<Rightarrow> pyval \<Rightarrow> pyerror + nat"
  check_random_state :: "pyerror + 'g"
  estimators_init :: "pyerror option"

record 'g er_instance =
  inst_params :: er_params
  inst_non_degree :: nat
  inst_max_lag :: nat
  inst_rng :: 'g

definition ER_init :: "'g init_env \<Rightarrow> er_params \<Rightarrow> pyerror + 'g er_instance" where
  "ER_init env c =
     (case basis_degree env of
        None \<Rightarrow> Inl AttributeError
      | Some degree \<Rightarrow>
     (case get_max_lag env (p_ylag c) (p_xlag c) of
        Inl e \<Rightarrow> Inl e
      | Inr lag \<Rightarrow>
     (case check_random_state env of
        Inl e \<Rightarrow> Inl e
      | Inr g \<Rightarrow>
     (case validate_params c of
        Some e \<Rightarrow> Inl e
      | None \<Rightarrow>
     (case estimators_init env of
        Some e \<Rightarrow> Inl e
      | None \<Rightarrow>
          Inr \<lparr>inst_params = c, inst_non_degree = degree, inst_max_lag = lag,
               inst_rng = g\<rparr>)))))"

text \<open>
  The parameters the specification calls invalid: \<open>k\<close> or \<open>n_perm\<close> not a positive
  integer, \<open>q\<close> not a float in \<open>(0, 1]\<close>, \<open>skip_forward\<close> not a boolean, a model type
  outside the three supported ones.
\<close>

definition positive_int :: "pyval \<Rightarrow> bool" where
  "positive_int v = (isinstance_int v \<and> fle (Fin 1) (num_of v))"

definition unit_interval_float :: "pyval \<Rightarrow> bool" where
  "unit_interval_float v =
     (isinstance_float v \<and> flt (Fin 0) (num_of v) \<and> fle (num_of v) (Fin 1))"

definition invalid_params :: "er_params \<Rightarrow> bool" where
  "invalid_params c =
     (\<not> positive_int (p_k c) \<or> \<not> positive_int (p_n_perm c)
      \<or> \<not> unit_interval_float (p_q c) \<or> \<not> isinstance_bool (p_skip_forward c)
      \<or> p_model_type c \<notin> {PyStr ''NARMAX'', PyStr ''NAR'', PyStr ''NFIR''})"

text \<open>The documented defaults, with a NaN quantile, and collaborators that accept them.\<close>

definition nan_q_params :: er_params where
  "nan_q_params =
     \<lparr>p_ylag = PyInt 2, p_xlag = PyInt 2, p_k = PyInt 2, p_n_perm = PyInt 200,
      p_q = PyFloat NaN, p_skip_forward = PyBool False,
      p_extended_least_squares = PyBool False, p_model_type = PyStr ''NARMAX''\<rparr>"

definition accepting_env :: "nat init_env" where
  "accepting_env =
     \<lparr>basis_degree = Some 2, get_max_lag = (\<lambda>ylag xlag. Inr 2),
      check_random_state = Inr 0, estimators_init = None\<rparr>"

section \<open>A concrete library for evaluating the model\<close>

text \<open>
  Closed examples need the library parameters at concrete values.
  \<^item> \<open>psi_harmonic\<close> is the digamma function at integers shifted by Euler's constant:
    the harmonic number \<open>H (n - 1)\<close> for \<open>n > 0\<close>, a pole at \<open>0\<close>. Both estimators
    only use differences of digamma values in which the constant cancels whenever the
    mean has a finite term, so the estimates are those of the true digamma.
  \<^item> \<open>argpartition_stable\<close> is the index order of a stable ascending sort, which
    partitions around every position.
  \<^item> \<open>orthogonal_fit\<close> is the least-squares projection \<^verbatim>\<open>A @ pinv(A) @ y\<close> for a
    matrix whose columns are mutually orthogonal (a zero column contributes nothing),
    and \<open>orthogonal_estimator\<close> the least-squares coefficients of such a matrix, fitted
    to the target without its warm-up rows.
  \<^item> \<open>rotate_permutation\<close> shuffles by rotating: the generator state is the number of
    draws so far.
\<close>

fun harm :: "nat \<Rightarrow> real" where
  "harm 0 = 0"
| "harm (Suc n) = harm n + 1 / real (Suc n)"

definition psi_harmonic :: "int \<Rightarrow> fval" where
  "psi_harmonic n = (if n < 0 then NaN else if n = 0 then NInf else Fin (harm (nat n - 1)))"

definition argpartition_stable :: "real list \<Rightarrow> nat \<Rightarrow> nat list" where
  "argpartition_stable a kth = map snd (sort_key fst (zip a [0..<length a]))"

definition dot :: "real list \<Rightarrow> real list \<Rightarrow> real" where
  "dot u v = sum_list (map2 (*) u v)"

definition column :: "array2 \<Rightarrow> nat \<Rightarrow> real list" where
  "column A j = map (\<lambda>row. row ! j) A"

definition ls_coefficient :: "array2 \<Rightarrow> array2 \<Rightarrow> nat \<Rightarrow> real" where
  "ls_coefficient A y j =
     (if dot (column A j) (column A j) = 0 then 0
      else dot (column A j) (column y 0) / dot (column A j) (column A j))"

definition orthogonal_fit :: "array2 \<Rightarrow> array2 \<Rightarrow> array2" where
  "orthogonal_fit A y =
     map (\<lambda>row. [sum_list (map (\<lambda>j. ls_coefficient A y j * row ! j) [0..<length row])]) A"

definition orthogonal_estimator :: "array2 \<Rightarrow> array2 \<Rightarrow> pyerror + real list" where
  "orthogonal_estimator A y_full =
     Inr (map (ls_coefficient A (drop (length y_full - length A) y_full)) [0..<n_columns A])"

definition rotate_permutation :: "nat \<Rightarrow> array2 \<Rightarrow> array2 \<times> nat" where
  "rotate_permutation g y = (rotate (Suc g) y, Suc g)"

definition demo_lib :: "nat numlib" where
  "demo_lib =
     \<lparr>psi = psi_harmonic, argpartition = argpartition_stable, pinv_fit = orthogonal_fit,
      permutation = rotate_permutation, estimator = orthogonal_estimator\<rparr>"

text \<open>
  A four-sample problem: a constant column and an input column orthogonal to it, the
  target \<open>0.001 + 0.5 x\<close> plus a disturbance orthogonal to both columns, one warm-up
  row, one permutation, \<open>k = 1\<close>, the Chebyshev distance, the default pruning threshold
  \<open>h = 0.01\<close> and the forward selection switched on (the default). The disturbance
  keeps the distances that decide a count well apart: small perturbations of the
  projections change no estimate of this run.
\<close>

definition demo_config :: er_config where
  "demo_config =
     \<lparr>cfg_k = 1, cfg_n_perm = 1, cfg_q = Fin 1, cfg_p = P_inf, cfg_h = 1 / 100,
      cfg_skip_forward = False\<rparr>"

definition demo_reg_matrix :: array2 where
  "demo_reg_matrix = [[1, - 5], [1, - 1], [1, 2], [1, 4]]"

definition demo_y :: array2 where
  "demo_y = [[- (2459 / 1000)], [- (599 / 1000)], [1071 / 1000], [1991 / 1000]]"

text \<open>The projections of the target on both columns, on the constant and on the input.\<close>

definition demo_fit_both :: array2 where
  "demo_fit_both = [[- (2499 / 1000)], [- (499 / 1000)], [1001 / 1000], [2001 / 1000]]"

definition demo_fit_const :: array2 where
  "demo_fit_const = [[1 / 1000], [1 / 1000], [1 / 1000], [1 / 1000]]"

definition demo_fit_input :: array2 where
  "demo_fit_input = [[- (5 / 2)], [- (1 / 2)], [1], [2]]"

definition demo_input :: fit_input where
  "demo_input =
     \<lparr>in_y = Some ([0] # demo_y), in_reg_matrix = demo_reg_matrix,
      in_regressor_code = [[0, 0], [2001, 0]], in_max_lag = 1, in_polynomial = True,
      in_ensemble = False, in_repetition = 0\<rparr>"

definition demo_model :: "nat er_model" where
  "demo_model =
     \<lparr>rng = 0, tol = Fin 0, estimated_tolerance = Fin 0, regressor_code = [],
      final_model = [], theta = [], n_terms = 0, err = [], pivv = [], max_lag = 0\<rparr>"

text \<open>What the fit of the four-sample problem leaves in the instance.\<close>

definition demo_fitted :: "nat er_model" where
  "demo_fitted =
     \<lparr>rng = 2, tol = Fin (1 / 12), estimated_tolerance = Fin (5 / 24),
      regressor_code = [[0, 0], [2001, 0]], final_model = [[2001, 0]],
      theta = [1 / 2], n_terms = 1, err = [0], pivv = [1], max_lag = 1\<rparr>"

text \<open>
  The same design matrix with the target \<open>0.5 + 0.001 x\<close>, for a selection that holds
  the input column first and the constant column second.
\<close>

definition swapped_input :: fit_input where
  "swapped_input =
     \<lparr>in_y = Some [[0], [99 / 200], [499 / 1000], [251 / 500], [63 / 125]],
      in_reg_matrix = demo_reg_matrix,
      in_regressor_code = [[0, 0], [2001, 0]], in_max_lag = 1, in_polynomial = True,
      in_ensemble = False, in_repetition = 0\<rparr>"

text \<open>The two shuffles the generator produces first, and the zero predictor.\<close>

definition demo_y_rot1 :: array2 where
  "demo_y_rot1 = [[- (599 / 1000)], [1071 / 1000], [1991 / 1000], [- (2459 / 1000)]]"

definition demo_y_rot2 :: array2 where
  "demo_y_rot2 = [[1071 / 1000], [1991 / 1000], [- (2459 / 1000)], [- (599 / 1000)]]"

definition demo_zeros :: array2 where
  "demo_zeros = [[0], [0], [0], [0]]"






section \<open>The conditional estimate as the specification words it\<close>

text \<open>
  The specification describes the radius of a sample as the distance to its \<open>k\<close>-th
  nearest neighbour in the joint space, the sample itself excluded, and the three counts
  as the number of other points lying strictly within that radius in each marginal
  space. \<open>kth_neighbour_radius\<close> and \<open>neighbours_within\<close> are exactly that, by index;
  \<open>cmi_with_counts\<close> is digamma(k) minus the mean over finite terms of
  \<open>digamma(y_f2 + 1) + digamma(f1_f2 + 1) - digamma(f2_f2 + 1)\<close> for three vectors of
  counts, and \<open>cmi_as_specified\<close> the estimate built from them. They are compared below
  with \<open>conditional_mutual_information\<close>, which follows the source.
\<close>

definition kth_neighbour_radius :: "porder \<Rightarrow> nat \<Rightarrow> array2 \<Rightarrow> real list" where
  "kth_neighbour_radius p k pts =
     map (\<lambda>i. sort (map (\<lambda>j. minkowski p (pts ! i) (pts ! j))
                       (filter (\<lambda>j. j \<noteq> i) [0..<length pts])) ! (k - 1))
         [0..<length pts]"

definition neighbours_within :: "porder \<Rightarrow> array2 \<Rightarrow> real list \<Rightarrow> int list" where
  "neighbours_within p pts epsilon =
     map (\<lambda>i. int (length (filter
            (\<lambda>j. j \<noteq> i \<and> minkowski p (pts ! i) (pts ! j) < epsilon ! i)
            [0..<length pts])))
         [0..<length pts]"

definition cmi_with_counts ::
  "('g, 'z) numlib_scheme \<Rightarrow> nat \<Rightarrow> int list \<Rightarrow> int list \<Rightarrow> int list \<Rightarrow> fval" where
  "cmi_with_counts lib k y_f2 f1_f2 f2_f2 =
     fsub (psi lib (int k))
       (finite_mean (map2 (\<lambda>a (b, c).
                       fsub (fadd (psi lib (a + 1)) (psi lib (b + 1))) (psi lib (c + 1)))
                     y_f2 (zip f1_f2 f2_f2)))"

definition cmi_as_specified ::
  "('g, 'z) numlib_scheme \<Rightarrow> porder \<Rightarrow> nat \<Rightarrow> array2 \<Rightarrow> array2 \<Rightarrow> array2 \<Rightarrow> fval" where
  "cmi_as_specified lib p k y f1 f2 =
     (let epsilon = kth_neighbour_radius p k (hstack (hstack y f1) f2)
      in cmi_with_counts lib k (neighbours_within p (hstack y f2) epsilon)
           (neighbours_within p (hstack f1 f2) epsilon) (neighbours_within p f2 epsilon))"

text \<open>
  The counts as the code takes them: the number of other points strictly within the
  radius for a sample whose radius is positive, and \<open>-1\<close> for a sample of radius zero.
\<close>

definition radius_counts :: "porder \<Rightarrow> array2 \<Rightarrow> real list \<Rightarrow> int list" where
  "radius_counts p pts epsilon =
     map2 (\<lambda>c e. if 0 < e then c else - 1) (neighbours_within p pts epsilon) epsilon"

text \<open>Four identical samples.\<close>

definition same_y :: array2 where
  "same_y = [[1], [1], [1], [1]]"

text \<open>Four samples of which the first two coincide in the joint space.\<close>

definition mixed_y :: array2 where
  "mixed_y = [[0], [0], [0], [1]]"

definition mixed_f1 :: array2 where
  "mixed_f1 = [[0], [0], [1], [0]]"

section \<open>What the estimators need from the library\<close>


definition argpartition_indices :: "('g, 'z) numlib_scheme \<Rightarrow> bool" where
  "argpartition_indices lib =
     (\<forall>a kth. kth < length a \<longrightarrow>
        length (argpartition lib a kth) = length a
        \<and> (\<forall>j \<in> set (argpartition lib a kth). j < length a))"

text \<open>
  \<^verbatim>\<open>np.argpartition(a, k + 1)[: k + 1]\<close> holds the positions of the \<open>k + 1\<close> smallest
  entries in an order the documentation leaves open. The radius is read at the last of
  them; it is the \<open>k\<close>-th neighbour's distance when, for a row already in ascending
  order, that last position is \<open>k\<close>.
\<close>

definition argpartition_kth_last :: "('g, 'z) numlib_scheme \<Rightarrow> nat \<Rightarrow> bool" where
  "argpartition_kth_last lib k =
     (\<forall>a. sorted a \<and> k + 1 < length a \<longrightarrow>
        last (take (k + 1) (argpartition lib a (k + 1))) = k)"

section \<open>The quantile as documented\<close>




section \<open>Properties of the constructor\<close>

lemma flt_fle_cases: "isinstance_int v \<Longrightarrow> flt (num_of v) (Fin 1) \<or> fle (Fin 1) (num_of v)"
  by (cases v) auto

text \<open>
  Whenever the parameters are invalid in the sense above and the quantile is not the
  float NaN, the validation raises, and so does the constructor.
\<close>

lemma validate_params_rejects:
  assumes "invalid_params c" and "p_q c \<noteq> PyFloat NaN"
  shows "validate_params c \<noteq> None"
proof -
  have q: "unit_interval_float (p_q c) \<or> \<not> isinstance_float (p_q c)
             \<or> flt (Fin 1) (num_of (p_q c)) \<or> fle (num_of (p_q c)) (Fin 0)"
  proof (cases "p_q c")
    case (PyFloat f)
    with assms(2) show ?thesis
      by (cases f) (auto simp: unit_interval_float_def)
  qed (simp_all add: unit_interval_float_def)
  have k: "positive_int v \<or> \<not> isinstance_int v \<or> flt (num_of v) (Fin 1)" for v
    using flt_fle_cases [of v] by (auto simp: positive_int_def)
  from assms(1) q k [of "p_k c"] k [of "p_n_perm c"] show ?thesis
    unfolding invalid_params_def validate_params_def by (simp split: if_splits) blast
qed

lemma ER_init_rejects:
  assumes "invalid_params c" and "p_q c \<noteq> PyFloat NaN"
  shows "\<exists>e. ER_init env c = Inl e"
  using validate_params_rejects [OF assms]
  by (auto simp: ER_init_def split: option.splits sum.splits)

text \<open>
  Claim C8. Constructing the model with \<open>k\<close> or \<open>n_perm\<close> not a positive integer, \<open>q\<close> not
  a float in \<open>(0, 1]\<close>, \<open>skip_forward\<close> not a boolean or an unsupported model type should
  raise at construction. The float NaN is not in \<open>(0, 1]\<close>, yet both comparisons of the
  check \<^verbatim>\<open>self.q > 1 or self.q <= 0\<close> are false for it: with every other parameter at its
  default the validation passes and the constructor returns an instance holding
  \<open>q = NaN\<close>.
\<close>

theorem ER_init_accepts_nan_q:
  "invalid_params nan_q_params \<and> validate_params nan_q_params = None
   \<and> ER_init accepting_env nan_q_params =
       Inr \<lparr>inst_params = nan_q_params, inst_non_degree = 2, inst_max_lag = 2, inst_rng = 0\<rparr>"
  by (simp add: invalid_params_def unit_interval_float_def validate_params_def ER_init_def
        nan_q_params_def accepting_env_def positive_int_def)

theorem ER_init_accepts_nan_q_witness:
  "validate_params nan_q_params = None"
  using ER_init_accepts_nan_q by simp

section \<open>Order facts about the floating-point comparison\<close>










section \<open>Backward elimination\<close>








section \<open>Evaluating the four-sample problem\<close>

lemmas estimator_eval =
  knn_epsilon_def hstack_def cdist_T_def cdist_def count_within_def demo_lib_def
  argpartition_stable_def psi_harmonic_def finite_mean_def the_real_def fsub_def
  conditional_mutual_information_def mutual_information_knn_def Let_def
  numeral_2_eq_2 numeral_3_eq_3

lemmas projection_eval =
  project_def columns_def n_columns_def orthogonal_fit_def ls_coefficient_def dot_def
  column_def zeros_like_def

lemmas demo_arrays =
  demo_y_def demo_fit_both_def demo_fit_const_def demo_fit_input_def demo_y_rot1_def
  demo_y_rot2_def demo_zeros_def

lemma upt_two: "[0..<2] = [0, Suc 0]" "[0..<Suc (Suc 0)] = [0, Suc 0]"
  by (simp_all add: upt_rec numeral_2_eq_2)

lemma demo_config_simps:
  "cfg_k demo_config = Suc 0" "cfg_n_perm demo_config = Suc 0" "cfg_q demo_config = Fin 1"
  "cfg_p demo_config = P_inf" "cfg_h demo_config = 1 / 100" "\<not> cfg_skip_forward demo_config"
  by (simp_all add: demo_config_def)

lemma demo_input_simps:
  "in_y demo_input = Some ([0] # demo_y)" "in_reg_matrix demo_input = demo_reg_matrix"
  "in_regressor_code demo_input = [[0, 0], [2001, 0]]" "in_max_lag demo_input = Suc 0"
  "in_polynomial demo_input"
  by (simp_all add: demo_input_def)

lemma demo_n_columns: "n_columns demo_reg_matrix = 2"
  by (simp add: n_columns_def demo_reg_matrix_def)

lemma demo_zeros_like: "zeros_like demo_y = demo_zeros"
  by (simp add: zeros_like_def demo_arrays)

subsection \<open>Projections\<close>

lemma demo_pinv_fit: "pinv_fit demo_lib demo_reg_matrix demo_y = demo_fit_both"
  by (simp add: projection_eval demo_lib_def demo_reg_matrix_def demo_arrays)


lemma demo_project_swapped:
  "project demo_lib demo_reg_matrix [Suc 0, 0] demo_y = Inr demo_fit_both"
  by (simp add: projection_eval demo_lib_def demo_reg_matrix_def demo_arrays)

lemma demo_project_const:
  "project demo_lib demo_reg_matrix [0] demo_y = Inr demo_fit_const"
  by (simp add: projection_eval demo_lib_def demo_reg_matrix_def demo_arrays)

lemma demo_project_input:
  "project demo_lib demo_reg_matrix [Suc 0] demo_y = Inr demo_fit_input"
  by (simp add: projection_eval demo_lib_def demo_reg_matrix_def demo_arrays)

subsection \<open>Estimates\<close>

lemma demo_mi_rot1:
  "mutual_information_knn demo_lib P_inf (Suc 0) demo_y demo_y_rot1 = Inr (Fin (5 / 24))"
  by (simp add: estimator_eval demo_arrays)

lemma demo_mi_rot2:
  "mutual_information_knn demo_lib P_inf (Suc 0) demo_y demo_y_rot2 = Inr (Fin (1 / 12))"
  by (simp add: estimator_eval demo_arrays)

lemma demo_mi_zeros:
  "mutual_information_knn demo_lib P_inf (Suc 0) demo_y demo_zeros = Inr (Fin 0)"
  by (simp add: estimator_eval demo_arrays)

lemma demo_mi_input:
  "mutual_information_knn demo_lib P_inf (Suc 0) demo_y demo_fit_input = Inr (Fin (5 / 6))"
  by (simp add: estimator_eval demo_arrays)

lemma demo_mi_both:
  "mutual_information_knn demo_lib P_inf (Suc 0) demo_y demo_fit_both = Inr (Fin (5 / 6))"
  by (simp add: estimator_eval demo_arrays)

lemma demo_cmi_add_const:
  "conditional_mutual_information demo_lib P_inf (Suc 0) demo_y demo_fit_const demo_zeros
     = Inr (Fin 0)"
  by (simp add: estimator_eval demo_arrays)

lemma demo_cmi_add_input:
  "conditional_mutual_information demo_lib P_inf (Suc 0) demo_y demo_fit_input demo_zeros
     = Inr (Fin (5 / 6))"
  by (simp add: estimator_eval demo_arrays)

lemma demo_cmi_drop_const:
  "conditional_mutual_information demo_lib P_inf (Suc 0) demo_y demo_fit_both demo_fit_input
     = Inr (Fin 0)"
  by (simp add: estimator_eval demo_arrays)

lemma demo_cmi_drop_input:
  "conditional_mutual_information demo_lib P_inf (Suc 0) demo_y demo_fit_both demo_fit_const
     = Inr (Fin (5 / 6))"
  by (simp add: estimator_eval demo_arrays)

subsection \<open>Backward elimination on both columns\<close>



subsection \<open>Forward selection\<close>

lemma demo_gains_empty:
  "candidate_gains demo_lib demo_config demo_reg_matrix demo_y [] = Inr [Fin 0, Fin (5 / 6)]"
  by (simp add: candidate_gains_def demo_n_columns upt_two demo_project_const
        demo_project_input demo_zeros_like demo_cmi_add_const demo_cmi_add_input
        demo_config_simps)

lemma demo_gains_input:
  "candidate_gains demo_lib demo_config demo_reg_matrix demo_y [Suc 0] = Inr [Fin 0, NInf]"
  by (simp add: candidate_gains_def demo_n_columns upt_two demo_project_swapped
        demo_project_input demo_cmi_drop_const demo_config_simps)

lemma demo_round_empty:
  "forward_round demo_lib demo_config (Fin (1 / 12)) demo_reg_matrix demo_y (Fin (5 / 6)) []
     = Inr (Continue (Suc 0))"
  by (simp add: forward_round_def demo_zeros_like demo_mi_zeros demo_gains_empty
        demo_config_simps nanargmax_def nan_to_ninf_def fsub_def demo_n_columns)

lemma demo_round_input:
  "forward_round demo_lib demo_config (Fin (1 / 12)) demo_reg_matrix demo_y (Fin (5 / 6)) [Suc 0]
     = Inr (Stop True)"
  by (simp add: forward_round_def demo_project_input demo_mi_input demo_gains_input
        demo_config_simps nanargmax_def nan_to_ninf_def fsub_def demo_n_columns)

lemma demo_forward_loop:
  "forward_loop demo_lib demo_config (Fin (1 / 12)) demo_reg_matrix demo_y (Fin (5 / 6)) [] None
     = Inr ([Suc 0], True)"
  by (simp add: forward_loop.simps [of _ _ _ _ _ _ "[]" None]
        forward_loop.simps [of _ _ _ _ _ _ "[]" "Some (Suc 0)"]
        demo_round_empty demo_round_input)

subsection \<open>Tolerances\<close>

lemma demo_quantile: "quantile [Fin r] (Fin 1) = Inr (Fin r)"
  by (simp add: quantile_def fsort_def lerp_def fsub_def)

lemma demo_estimates_0:
  "permutation_estimates demo_lib demo_config (Suc 0) 0 demo_y = Inr ([Fin (5 / 24)], Suc 0)"
proof -
  have "permutation demo_lib 0 demo_y = (demo_y_rot1, Suc 0)"
    by (simp add: demo_lib_def rotate_permutation_def demo_arrays)
  then show ?thesis by (simp add: demo_config_simps demo_mi_rot1)
qed

lemma demo_estimates_1:
  "permutation_estimates demo_lib demo_config (Suc 0) (Suc 0) demo_y
     = Inr ([Fin (1 / 12)], Suc (Suc 0))"
proof -
  have "permutation demo_lib (Suc 0) demo_y = (demo_y_rot2, Suc (Suc 0))"
    by (simp add: demo_lib_def rotate_permutation_def demo_arrays)
  then show ?thesis by (simp add: demo_config_simps demo_mi_rot2)
qed

lemma demo_forward:
  "entropic_regression_forward demo_lib demo_config (Suc 0) demo_reg_matrix demo_y
     = Inr (([Suc 0], True), Fin (1 / 12), Suc (Suc 0))"
  by (simp add: entropic_regression_forward_def tolerance_estimator_def demo_config_simps
        demo_estimates_1 demo_quantile demo_pinv_fit demo_mi_both demo_forward_loop
        del: permutation_estimates.simps)

subsection \<open>The whole fit\<close>

lemma demo_backward_single:
  "entropic_regression_backward lib cfg t R y [0] = Inr [0]"
  by (simp add: entropic_regression_backward_def backward_loop.simps [of _ _ _ _ _ _ "[0]"])

lemma demo_select_terms:
  "select_terms demo_lib demo_config demo_input demo_y demo_model =
     Inr ([0, Suc 0], demo_model\<lparr>rng := Suc (Suc 0), tol := Fin (1 / 12),
            estimated_tolerance := Fin (5 / 24), max_lag := Suc 0\<rparr>)"
proof -
  have "rng demo_model = 0" by (simp add: demo_model_def)
  moreover have "\<exists>A. columns demo_reg_matrix [Suc 0] = Inr A"
    by (simp add: columns_def demo_n_columns)
  ultimately show ?thesis
    by (auto simp add: select_terms_def demo_config_simps demo_input_simps
        demo_estimates_0 demo_quantile demo_forward demo_backward_single
        compose_final_def take_rows_def Let_def
        simp del: permutation_estimates.simps)
qed

lemma demo_columns_all: "columns demo_reg_matrix [0, Suc 0] = Inr demo_reg_matrix"
  by (simp add: columns_def n_columns_def demo_reg_matrix_def)

lemma demo_estimator:
  "estimator demo_lib demo_reg_matrix ([0] # demo_y) = Inr [1 / 1000, 1 / 2]"
  by (simp add: demo_lib_def orthogonal_estimator_def projection_eval demo_reg_matrix_def
        demo_y_def upt_two)

lemma demo_fit:
  "fit demo_lib demo_config demo_model demo_input = Inr demo_fitted"
proof -
  have "drop (Suc 0) ([0] # demo_y) = demo_y" by simp
  then show ?thesis
    by (simp add: fit_def demo_input_simps demo_select_terms finish_fit_def
        final_code_table_def take_rows_def demo_columns_all demo_estimator demo_config_simps
        demo_fitted_def)
qed

subsection \<open>A second fit of the same instance\<close>

text \<open>
  The generator is part of the instance and every fit advances it: a second fit of the
  same instance starts from another state. Here the second fit draws the identity
  permutation for the forward selector's tolerance, the selector stops at once with
  nothing selected, and the composition of the final set raises.
\<close>

lemma demo_mi_rot3:
  "mutual_information_knn demo_lib P_inf (Suc 0) demo_y
     [[1991 / 1000], [- (2459 / 1000)], [- (599 / 1000)], [1071 / 1000]] = Inr (Fin (5 / 24))"
  by (simp add: estimator_eval demo_arrays)

lemma demo_mi_identity:
  "mutual_information_knn demo_lib P_inf (Suc 0) demo_y demo_y = Inr (Fin (11 / 6))"
  by (simp add: estimator_eval demo_arrays)

lemma demo_round_empty_high_tolerance:
  "forward_round demo_lib demo_config (Fin (11 / 6)) demo_reg_matrix demo_y (Fin (5 / 6)) []
     = Inr (Stop True)"
  by (simp add: forward_round_def demo_zeros_like demo_mi_zeros demo_gains_empty
        demo_config_simps nanargmax_def nan_to_ninf_def fsub_def demo_n_columns)

lemma demo_estimates_2:
  "permutation_estimates demo_lib demo_config (Suc 0) (Suc (Suc 0)) demo_y
     = Inr ([Fin (5 / 24)], Suc (Suc (Suc 0)))"
proof -
  have "permutation demo_lib (Suc (Suc 0)) demo_y =
      ([[1991 / 1000], [- (2459 / 1000)], [- (599 / 1000)], [1071 / 1000]], Suc (Suc (Suc 0)))"
    by (simp add: demo_lib_def rotate_permutation_def demo_arrays numeral_3_eq_3)
  then show ?thesis by (simp add: demo_config_simps demo_mi_rot3)
qed

lemma demo_estimates_3:
  "permutation_estimates demo_lib demo_config (Suc 0) (Suc (Suc (Suc 0))) demo_y
     = Inr ([Fin (11 / 6)], Suc (Suc (Suc (Suc 0))))"
proof -
  have "permutation demo_lib (Suc (Suc (Suc 0))) demo_y = (demo_y, Suc (Suc (Suc (Suc 0))))"
    by (simp add: demo_lib_def rotate_permutation_def demo_arrays)
  then show ?thesis by (simp add: demo_config_simps demo_mi_identity)
qed

lemma demo_forward_3:
  "entropic_regression_forward demo_lib demo_config (Suc (Suc (Suc 0))) demo_reg_matrix demo_y
     = Inr (([], True), Fin (11 / 6), Suc (Suc (Suc (Suc 0))))"
  by (simp add: entropic_regression_forward_def tolerance_estimator_def demo_config_simps
      demo_estimates_3 demo_quantile demo_pinv_fit demo_mi_both
      forward_loop.simps [of _ _ _ _ _ _ "[]" None] demo_round_empty_high_tolerance
      del: permutation_estimates.simps)

lemma demo_fit_again:
  "fit demo_lib demo_config demo_fitted demo_input = Inl IndexError"
proof -
  have "rng demo_fitted = Suc (Suc 0)" by (simp add: demo_fitted_def)
  then have "select_terms demo_lib demo_config demo_input demo_y demo_fitted = Inl IndexError"
    by (simp add: select_terms_def demo_config_simps demo_input_simps demo_estimates_2
        demo_quantile demo_forward_3 columns_def compose_final_def
        entropic_regression_backward_def backward_loop.simps [of _ _ _ _ _ _ "[]"] Let_def
        del: permutation_estimates.simps)
  then show ?thesis by (simp add: fit_def demo_input_simps)
qed


section \<open>The fit-time driver\<close>

lemma compose_final_has_0: "compose_final s b = Inr f \<Longrightarrow> 0 \<in> set f"
  by (auto simp: compose_final_def split: if_splits sum.splits)

lemma compose_final_cases:
  "compose_final s b = Inr f \<Longrightarrow>
   (0 \<notin> set (map (\<lambda>j. s ! j) b) \<longrightarrow> f = 0 # map (\<lambda>j. s ! j) b)
   \<and> (0 \<in> set (map (\<lambda>j. s ! j) b) \<longrightarrow> f = map (\<lambda>j. s ! j) b)"
  by (auto simp: compose_final_def take_rows_def split: if_splits sum.splits)

lemma select_terms_has_0: "select_terms lib cfg inp y m = Inr (f, m1) \<Longrightarrow> 0 \<in> set f"
  unfolding select_terms_def Let_def
  by (auto split: sum.splits prod.splits if_splits dest: compose_final_has_0)

lemma length_take_rows: "take_rows code js = Inr rows \<Longrightarrow> length rows = length js"
  by (auto simp: take_rows_def split: if_splits)

lemma finish_fit_pruned:
  assumes "take_rows (final_code_table inp) final = Inr rows"
    and "columns (in_reg_matrix inp) final = Inr A"
    and "estimator lib A y_full = Inr th"
    and "th \<noteq> []" and "\<bar>hd th\<bar> < cfg_h cfg" and "1 < length (filter (\<lambda>c. c \<noteq> 0) th)"
  shows "finish_fit lib cfg inp y_full m final =
     Inr (m\<lparr>regressor_code := final_code_table inp, final_model := tl rows,
              theta := tl th, n_terms := length (tl th),
              err := replicate (length (tl th)) 0, pivv := tl final\<rparr>)"
  using assms by (simp add: finish_fit_def)

lemma finish_fit_shape:
  assumes "finish_fit lib cfg inp y_full m final = Inr m'"
  shows "\<exists>rows A th. take_rows (final_code_table inp) final = Inr rows
           \<and> columns (in_reg_matrix inp) final = Inr A \<and> estimator lib A y_full = Inr th
           \<and> th \<noteq> []
           \<and> ((\<bar>hd th\<bar> < cfg_h cfg \<and> 1 < length (filter (\<lambda>c. c \<noteq> 0) th)
                 \<and> pivv m' = tl final \<and> theta m' = tl th \<and> final_model m' = tl rows)
               \<or> (\<not> (\<bar>hd th\<bar> < cfg_h cfg \<and> 1 < length (filter (\<lambda>c. c \<noteq> 0) th))
                 \<and> pivv m' = final \<and> theta m' = th \<and> final_model m' = rows))"
  using assms unfolding finish_fit_def
  by (auto split: sum.splits if_splits)

lemma length_filter_gt1: "1 < length (filter P xs) \<Longrightarrow> 2 \<le> length xs"
  using length_filter_le [of P xs] by linarith


lemma n_columns_columns: "columns R js = Inr A \<Longrightarrow> R \<noteq> [] \<Longrightarrow> A \<noteq> [] \<and> n_columns A = length js"
  by (cases R) (auto simp: columns_def n_columns_def split: if_splits)

lemma select_terms_shape:
  assumes "select_terms lib cfg inp y m = Inr (final, m1)"
  shows "\<exists>ks g1 t1 fw ok selected narrowed bw.
           permutation_estimates lib cfg (cfg_n_perm cfg) (rng m) y = Inr (ks, g1)
           \<and> quantile ks (cfg_q cfg) = Inr t1
           \<and> (if cfg_skip_forward cfg then fw = [] \<and> \<not> ok \<and> tol m1 = t1 \<and> rng m1 = g1
               else entropic_regression_forward lib cfg g1 (in_reg_matrix inp) y
                      = Inr ((fw, ok), tol m1, rng m1))
           \<and> selected = (if \<not> ok \<or> cfg_skip_forward cfg
                          then [0..<n_columns (in_reg_matrix inp)] else fw)
           \<and> columns (in_reg_matrix inp) selected = Inr narrowed
           \<and> entropic_regression_backward lib cfg (tol m1) narrowed y [0..<length selected]
               = Inr bw
           \<and> bw \<noteq> []
           \<and> final = (if 0 \<in> set (map (\<lambda>j. selected ! j) bw)
                       then map (\<lambda>j. selected ! j) bw
                       else 0 # map (\<lambda>j. selected ! j) bw)"
proof -
  from assms obtain ks g1 t1 fw ok t2 g2 narrowed bw where
    e: "permutation_estimates lib cfg (cfg_n_perm cfg) (rng m) y = Inr (ks, g1)"
    and q: "quantile ks (cfg_q cfg) = Inr t1"
    and f: "(if \<not> cfg_skip_forward cfg
            then entropic_regression_forward lib cfg g1 (in_reg_matrix inp) y
            else Inr (([], False), t1, g1)) = Inr ((fw, ok), t2, g2)"
    and c: "columns (in_reg_matrix inp)
              (if \<not> ok \<or> cfg_skip_forward cfg
               then [0..<n_columns (in_reg_matrix inp)] else fw) = Inr narrowed"
    and b: "entropic_regression_backward lib cfg t2 narrowed y
              [0..<length (if \<not> ok \<or> cfg_skip_forward cfg
               then [0..<n_columns (in_reg_matrix inp)] else fw)] = Inr bw"
    and cf: "compose_final (if \<not> ok \<or> cfg_skip_forward cfg
               then [0..<n_columns (in_reg_matrix inp)] else fw) bw = Inr final"
    and m1: "m1 = m\<lparr>rng := g2, tol := t2, estimated_tolerance := t1,
                      max_lag := in_max_lag inp\<rparr>"
    unfolding select_terms_def Let_def
    by (auto split: sum.splits prod.splits)
  let ?sel = "if \<not> ok \<or> cfg_skip_forward cfg
               then [0..<n_columns (in_reg_matrix inp)] else fw"
  from m1 have t: "tol m1 = t2" "rng m1 = g2" by simp_all
  from cf have bne: "bw \<noteq> []" by (auto simp: compose_final_def split: if_splits)
  from compose_final_cases [OF cf]
  have fin: "final = (if 0 \<in> set (map (\<lambda>j. ?sel ! j) bw)
                       then map (\<lambda>j. ?sel ! j) bw
                       else 0 # map (\<lambda>j. ?sel ! j) bw)" by auto
  have fw: "if cfg_skip_forward cfg then fw = [] \<and> \<not> ok \<and> tol m1 = t1 \<and> rng m1 = g1
               else entropic_regression_forward lib cfg g1 (in_reg_matrix inp) y
                      = Inr ((fw, ok), tol m1, rng m1)"
    using f t by (auto split: if_splits)
  from e q fw c b bne fin show ?thesis unfolding t by blast
qed

lemma fit_raises_on_empty_selection:
  assumes "in_y inp = Some y_full" and "\<not> cfg_skip_forward cfg"
    and "permutation_estimates lib cfg (cfg_n_perm cfg) (rng m) (drop (in_max_lag inp) y_full)
           = Inr (ks, g1)"
    and "quantile ks (cfg_q cfg) = Inr t1"
    and "entropic_regression_forward lib cfg g1 (in_reg_matrix inp) (drop (in_max_lag inp) y_full)
           = Inr (([], True), t2, g2)"
  shows "fit lib cfg m inp = Inl IndexError"
  using assms
  by (simp add: fit_def select_terms_def columns_def entropic_regression_backward_def
      backward_loop.simps [of _ _ _ _ _ _ "[]"] compose_final_def)


text \<open>
  Claim C1, as amended. For a design matrix that has rows and an estimator that returns
  one coefficient per column, every fit that returns went through this: the index set
  \<open>final\<close> handed to the estimator is the composition of the selected columns with the
  backward eliminator's result, with index 0 put in front when the composition lacks it,
  so it always holds 0; \<open>pivv\<close>, \<open>theta\<close> and the final model are \<open>final\<close>, the
  coefficients and the code rows, or all three without their first position when the
  pruning of lines 656-661 applies; they are never empty; and index 0 is in \<open>pivv\<close>
  unless it stood first and was pruned. A fit whose forward selector succeeds with
  nothing selected does not return: composing the final set raises IndexError.
\<close>

theorem fit_keeps_constant_until_pruning:
  assumes rows: "in_reg_matrix inp \<noteq> []"
    and est: "\<forall>A y th. estimator lib A y = Inr th \<longrightarrow> A \<noteq> [] \<longrightarrow> length th = n_columns A"
  shows "(fit lib cfg m inp = Inr m' \<longrightarrow>
           (\<exists>y_full final m1 g1 fw ok selected narrowed bw A th code_rows.
              in_y inp = Some y_full
              \<and> select_terms lib cfg inp (drop (in_max_lag inp) y_full) m = Inr (final, m1)
              \<and> (if cfg_skip_forward cfg then fw = [] \<and> \<not> ok
                  else entropic_regression_forward lib cfg g1 (in_reg_matrix inp)
                         (drop (in_max_lag inp) y_full) = Inr ((fw, ok), tol m1, rng m1))
              \<and> selected = (if \<not> ok \<or> cfg_skip_forward cfg
                             then [0..<n_columns (in_reg_matrix inp)] else fw)
              \<and> columns (in_reg_matrix inp) selected = Inr narrowed
              \<and> entropic_regression_backward lib cfg (tol m1) narrowed
                   (drop (in_max_lag inp) y_full) [0..<length selected] = Inr bw
              \<and> final = (if 0 \<in> set (map (\<lambda>j. selected ! j) bw)
                          then map (\<lambda>j. selected ! j) bw
                          else 0 # map (\<lambda>j. selected ! j) bw)
              \<and> 0 \<in> set final
              \<and> columns (in_reg_matrix inp) final = Inr A
              \<and> estimator lib A y_full = Inr th
              \<and> take_rows (final_code_table inp) final = Inr code_rows
              \<and> (if \<bar>hd th\<bar> < cfg_h cfg \<and> 1 < length (filter (\<lambda>c. c \<noteq> 0) th)
                  then pivv m' = tl final \<and> theta m' = tl th \<and> final_model m' = tl code_rows
                  else pivv m' = final \<and> theta m' = th \<and> final_model m' = code_rows)
              \<and> (0 \<in> set (pivv m') \<or> hd final = 0 \<and> pivv m' = tl final)
              \<and> pivv m' \<noteq> [] \<and> theta m' \<noteq> [] \<and> final_model m' \<noteq> []))
         \<and> (\<forall>y_full ks g1 t1 t2 g2.
              in_y inp = Some y_full \<and> \<not> cfg_skip_forward cfg
              \<and> permutation_estimates lib cfg (cfg_n_perm cfg) (rng m)
                    (drop (in_max_lag inp) y_full) = Inr (ks, g1)
              \<and> quantile ks (cfg_q cfg) = Inr t1
              \<and> entropic_regression_forward lib cfg g1 (in_reg_matrix inp)
                    (drop (in_max_lag inp) y_full) = Inr (([], True), t2, g2)
              \<longrightarrow> fit lib cfg m inp = Inl IndexError)"
proof (intro conjI impI allI)
  assume fit: "fit lib cfg m inp = Inr m'"
  from fit obtain y_full final m1 where
    y: "in_y inp = Some y_full"
    and sel: "select_terms lib cfg inp (drop (in_max_lag inp) y_full) m = Inr (final, m1)"
    and fin: "finish_fit lib cfg inp y_full m1 final = Inr m'"
    by (auto simp: fit_def split: option.splits sum.splits)
  from select_terms_shape [OF sel] obtain ks g1 t1 fw ok selected narrowed bw where
    fw0: "if cfg_skip_forward cfg then fw = [] \<and> \<not> ok \<and> tol m1 = t1 \<and> rng m1 = g1
          else entropic_regression_forward lib cfg g1 (in_reg_matrix inp)
                 (drop (in_max_lag inp) y_full) = Inr ((fw, ok), tol m1, rng m1)"
    and s: "selected = (if \<not> ok \<or> cfg_skip_forward cfg
                        then [0..<n_columns (in_reg_matrix inp)] else fw)"
    and c: "columns (in_reg_matrix inp) selected = Inr narrowed"
    and b: "entropic_regression_backward lib cfg (tol m1) narrowed
              (drop (in_max_lag inp) y_full) [0..<length selected] = Inr bw"
    and f: "final = (if 0 \<in> set (map (\<lambda>j. selected ! j) bw)
                     then map (\<lambda>j. selected ! j) bw
                     else 0 # map (\<lambda>j. selected ! j) bw)"
    by blast
  have fw: "if cfg_skip_forward cfg then fw = [] \<and> \<not> ok
            else entropic_regression_forward lib cfg g1 (in_reg_matrix inp)
                   (drop (in_max_lag inp) y_full) = Inr ((fw, ok), tol m1, rng m1)"
    using fw0 by (simp split: if_splits)
  from sel have zero: "0 \<in> set final" by (rule select_terms_has_0)
  from finish_fit_shape [OF fin] obtain rs A th where
    rs: "take_rows (final_code_table inp) final = Inr rs"
    and A: "columns (in_reg_matrix inp) final = Inr A"
    and th: "estimator lib A y_full = Inr th" "th \<noteq> []"
    and cases: "(\<bar>hd th\<bar> < cfg_h cfg \<and> 1 < length (filter (\<lambda>c. c \<noteq> 0) th)
                 \<and> pivv m' = tl final \<and> theta m' = tl th \<and> final_model m' = tl rs)
               \<or> (\<not> (\<bar>hd th\<bar> < cfg_h cfg \<and> 1 < length (filter (\<lambda>c. c \<noteq> 0) th))
                 \<and> pivv m' = final \<and> theta m' = th \<and> final_model m' = rs)"
    by blast
  from n_columns_columns [OF A rows] est th(1) have len: "length th = length final" by auto
  from rs have lrs: "length rs = length final" by (rule length_take_rows)
  have ifc: "if \<bar>hd th\<bar> < cfg_h cfg \<and> 1 < length (filter (\<lambda>c. c \<noteq> 0) th)
             then pivv m' = tl final \<and> theta m' = tl th \<and> final_model m' = tl rs
             else pivv m' = final \<and> theta m' = th \<and> final_model m' = rs"
    using cases by auto
  have kept: "0 \<in> set (pivv m') \<or> hd final = 0 \<and> pivv m' = tl final"
    using cases zero by (cases final) auto
  have nonempty: "pivv m' \<noteq> [] \<and> theta m' \<noteq> [] \<and> final_model m' \<noteq> []"
    using cases
  proof
    assume p: "\<bar>hd th\<bar> < cfg_h cfg \<and> 1 < length (filter (\<lambda>c. c \<noteq> 0) th)
                 \<and> pivv m' = tl final \<and> theta m' = tl th \<and> final_model m' = tl rs"
    then have "2 \<le> length th" using length_filter_gt1 [of "\<lambda>c. c \<noteq> 0" th] by simp
    with len lrs have "tl final \<noteq> []" "tl th \<noteq> []" "tl rs \<noteq> []"
      by (cases final; cases th; cases rs; auto)+
    with p show ?thesis by simp
  next
    assume "\<not> (\<bar>hd th\<bar> < cfg_h cfg \<and> 1 < length (filter (\<lambda>c. c \<noteq> 0) th))
                 \<and> pivv m' = final \<and> theta m' = th \<and> final_model m' = rs"
    with zero th(2) lrs show ?thesis by auto
  qed
  have all: "in_y inp = Some y_full
              \<and> select_terms lib cfg inp (drop (in_max_lag inp) y_full) m = Inr (final, m1)
              \<and> (if cfg_skip_forward cfg then fw = [] \<and> \<not> ok
                  else entropic_regression_forward lib cfg g1 (in_reg_matrix inp)
                         (drop (in_max_lag inp) y_full) = Inr ((fw, ok), tol m1, rng m1))
              \<and> selected = (if \<not> ok \<or> cfg_skip_forward cfg
                             then [0..<n_columns (in_reg_matrix inp)] else fw)
              \<and> columns (in_reg_matrix inp) selected = Inr narrowed
              \<and> entropic_regression_backward lib cfg (tol m1) narrowed
                   (drop (in_max_lag inp) y_full) [0..<length selected] = Inr bw
              \<and> final = (if 0 \<in> set (map (\<lambda>j. selected ! j) bw)
                          then map (\<lambda>j. selected ! j) bw
                          else 0 # map (\<lambda>j. selected ! j) bw)
              \<and> 0 \<in> set final
              \<and> columns (in_reg_matrix inp) final = Inr A
              \<and> estimator lib A y_full = Inr th
              \<and> take_rows (final_code_table inp) final = Inr rs
              \<and> (if \<bar>hd th\<bar> < cfg_h cfg \<and> 1 < length (filter (\<lambda>c. c \<noteq> 0) th)
                  then pivv m' = tl final \<and> theta m' = tl th \<and> final_model m' = tl rs
                  else pivv m' = final \<and> theta m' = th \<and> final_model m' = rs)
              \<and> (0 \<in> set (pivv m') \<or> hd final = 0 \<and> pivv m' = tl final)
              \<and> pivv m' \<noteq> [] \<and> theta m' \<noteq> [] \<and> final_model m' \<noteq> []"
    apply (intro conjI)
    using y sel fw s c b f zero A th(1) rs ifc kept nonempty by blast+
  show "\<exists>y_full final m1 g1 fw ok selected narrowed bw A th code_rows.
              in_y inp = Some y_full
              \<and> select_terms lib cfg inp (drop (in_max_lag inp) y_full) m = Inr (final, m1)
              \<and> (if cfg_skip_forward cfg then fw = [] \<and> \<not> ok
                  else entropic_regression_forward lib cfg g1 (in_reg_matrix inp)
                         (drop (in_max_lag inp) y_full) = Inr ((fw, ok), tol m1, rng m1))
              \<and> selected = (if \<not> ok \<or> cfg_skip_forward cfg
                             then [0..<n_columns (in_reg_matrix inp)] else fw)
              \<and> columns (in_reg_matrix inp) selected = Inr narrowed
              \<and> entropic_regression_backward lib cfg (tol m1) narrowed
                   (drop (in_max_lag inp) y_full) [0..<length selected] = Inr bw
              \<and> final = (if 0 \<in> set (map (\<lambda>j. selected ! j) bw)
                          then map (\<lambda>j. selected ! j) bw
                          else 0 # map (\<lambda>j. selected ! j) bw)
              \<and> 0 \<in> set final
              \<and> columns (in_reg_matrix inp) final = Inr A
              \<and> estimator lib A y_full = Inr th
              \<and> take_rows (final_code_table inp) final = Inr code_rows
              \<and> (if \<bar>hd th\<bar> < cfg_h cfg \<and> 1 < length (filter (\<lambda>c. c \<noteq> 0) th)
                  then pivv m' = tl final \<and> theta m' = tl th \<and> final_model m' = tl code_rows
                  else pivv m' = final \<and> theta m' = th \<and> final_model m' = code_rows)
              \<and> (0 \<in> set (pivv m') \<or> hd final = 0 \<and> pivv m' = tl final)
              \<and> pivv m' \<noteq> [] \<and> theta m' \<noteq> [] \<and> final_model m' \<noteq> []"
    by (intro exI) (rule all)
next
  fix y_full ks g1 t1 t2 g2
  assume "in_y inp = Some y_full \<and> \<not> cfg_skip_forward cfg
              \<and> permutation_estimates lib cfg (cfg_n_perm cfg) (rng m)
                    (drop (in_max_lag inp) y_full) = Inr (ks, g1)
              \<and> quantile ks (cfg_q cfg) = Inr t1
              \<and> entropic_regression_forward lib cfg g1 (in_reg_matrix inp)
                    (drop (in_max_lag inp) y_full) = Inr (([], True), t2, g2)"
  then show "fit lib cfg m inp = Inl IndexError"
    by (intro fit_raises_on_empty_selection) auto
qed

lemma demo_estimator_length:
  "\<forall>A y th. estimator demo_lib A y = Inr th \<longrightarrow> A \<noteq> [] \<longrightarrow> length th = n_columns A"
  by (auto simp: demo_lib_def orthogonal_estimator_def)

theorem fit_keeps_constant_until_pruning_witness:
  "fit demo_lib demo_config demo_model demo_input = Inr demo_fitted
   \<and> pivv demo_fitted \<noteq> [] \<and> theta demo_fitted \<noteq> [] \<and> final_model demo_fitted \<noteq> []
   \<and> fit demo_lib demo_config demo_fitted demo_input = Inl IndexError"
proof -
  have rows: "in_reg_matrix demo_input \<noteq> []"
    by (simp add: demo_input_def demo_reg_matrix_def)
  note C = fit_keeps_constant_until_pruning [OF rows demo_estimator_length]
  have e: "permutation_estimates demo_lib demo_config (cfg_n_perm demo_config) (rng demo_fitted)
             (drop (in_max_lag demo_input) ([0] # demo_y)) = Inr ([Fin (5 / 24)], Suc (Suc (Suc 0)))"
    using demo_estimates_2
    by (simp add: demo_config_simps demo_input_simps demo_fitted_def numeral_2_eq_2
        del: permutation_estimates.simps)
  have f: "entropic_regression_forward demo_lib demo_config (Suc (Suc (Suc 0)))
             (in_reg_matrix demo_input) (drop (in_max_lag demo_input) ([0] # demo_y))
             = Inr (([], True), Fin (11 / 6), Suc (Suc (Suc (Suc 0))))"
    using demo_forward_3 by (simp add: demo_input_simps)
  have q: "quantile [Fin (5 / 24)] (cfg_q demo_config) = Inr (Fin (5 / 24))"
    by (simp add: demo_config_simps demo_quantile)
  have again: "fit demo_lib demo_config demo_fitted demo_input = Inl IndexError"
    using C [of demo_config demo_fitted demo_fitted] e f q
    by (simp add: demo_input_simps demo_config_simps del: permutation_estimates.simps)
  from C [of demo_config demo_model demo_fitted] demo_fit again show ?thesis by auto
qed

text \<open>
  Claim C1 as stated fails: in the four-sample problem the forward selector picks the
  input column only, index 0 is put in front, the estimated constant is \<open>0.001 < h\<close>
  beside a second non-zero coefficient, and the pruning drops position 0, which is the
  constant term. The fitted model holds column 1 alone.
\<close>

theorem fit_drops_constant_term:
  "fit demo_lib demo_config demo_model demo_input = Inr demo_fitted
   \<and> pivv demo_fitted = [1] \<and> 0 \<notin> set (pivv demo_fitted)
   \<and> final_model demo_fitted = [[2001, 0]]"
  using demo_fit by (simp add: demo_fitted_def)

text \<open>
  Claim C10. When the first coefficient is below \<open>h\<close> in magnitude and more than one
  coefficient is non-zero, the fit drops position 0 of \<open>theta\<close>, of the final model and
  of the final index set. The index that goes is the head of the composed set: it is 0
  when 0 had to be put in front, and otherwise whatever the selection holds first, which
  need not be 0 (a selection can hold 0 at a later position).
\<close>

theorem pruning_removes_first_position:
  assumes "compose_final selected_terms selected_terms_backward = Inr final"
    and "take_rows (final_code_table inp) final = Inr rows"
    and "columns (in_reg_matrix inp) final = Inr A"
    and "estimator lib A y_full = Inr th"
    and "\<bar>hd th\<bar> < cfg_h cfg" and "1 < length (filter (\<lambda>c. c \<noteq> 0) th)"
  shows "finish_fit lib cfg inp y_full m final =
           Inr (m\<lparr>regressor_code := final_code_table inp, final_model := tl rows,
                    theta := tl th, n_terms := length (tl th),
                    err := replicate (length (tl th)) 0, pivv := tl final\<rparr>)
         \<and> final = hd final # tl final
         \<and> (0 \<notin> set (map (\<lambda>j. selected_terms ! j) selected_terms_backward) \<longrightarrow> hd final = 0)
         \<and> (0 \<in> set (map (\<lambda>j. selected_terms ! j) selected_terms_backward) \<longrightarrow>
              hd final = selected_terms ! hd selected_terms_backward)
         \<and> (\<exists>s b f. compose_final s b = Inr f \<and> 0 \<in> set f \<and> hd f \<noteq> 0)"
proof -
  from assms(6) have "th \<noteq> []" by auto
  with assms have run: "finish_fit lib cfg inp y_full m final =
           Inr (m\<lparr>regressor_code := final_code_table inp, final_model := tl rows,
                    theta := tl th, n_terms := length (tl th),
                    err := replicate (length (tl th)) 0, pivv := tl final\<rparr>)"
    by (intro finish_fit_pruned)
  from assms(1) have "0 \<in> set final" by (rule compose_final_has_0)
  then have ne: "final = hd final # tl final" by (cases final) auto
  from assms(1) have b: "selected_terms_backward \<noteq> []"
    by (auto simp: compose_final_def split: if_splits)
  note cs = compose_final_cases [OF assms(1)]
  have absent: "0 \<notin> set (map (\<lambda>j. selected_terms ! j) selected_terms_backward) \<longrightarrow> hd final = 0"
    using cs by auto
  have present: "0 \<in> set (map (\<lambda>j. selected_terms ! j) selected_terms_backward) \<longrightarrow>
              hd final = selected_terms ! hd selected_terms_backward"
    using cs b by (cases selected_terms_backward) auto
  have "compose_final [Suc 0, 0] [0, Suc 0] = Inr [Suc 0, 0]"
    by (simp add: compose_final_def take_rows_def)
  then have ex: "\<exists>s b f. compose_final s b = Inr f \<and> 0 \<in> set f \<and> hd f \<noteq> 0"
    by (intro exI [of _ "[Suc 0, 0]"] exI [of _ "[0, Suc 0]"]) simp
  from run ne absent present ex show ?thesis by blast
qed

lemma swapped_estimator:
  "estimator demo_lib [[- 5, 1], [- 1, 1], [2, 1], [4, 1]]
     [[0], [99 / 200], [499 / 1000], [251 / 500], [63 / 125]] = Inr [1 / 1000, 1 / 2]"
  by (simp add: demo_lib_def orthogonal_estimator_def projection_eval upt_two)

theorem pruning_removes_first_position_witness:
  "compose_final [1, 0] [0, 1] = Inr [1, 0]
   \<and> finish_fit demo_lib demo_config swapped_input
        [[0], [99 / 200], [499 / 1000], [251 / 500], [63 / 125]] demo_model [1, 0] =
      Inr (demo_model\<lparr>regressor_code := [[0, 0], [2001, 0]], final_model := [[0, 0]],
             theta := [1 / 2], n_terms := 1, err := [0], pivv := [0]\<rparr>)"
proof -
  have c: "compose_final [1, 0] [0, 1] = Inr [1, 0]"
    by (simp add: compose_final_def take_rows_def)
  have r: "take_rows (final_code_table swapped_input) [1, 0] = Inr [[2001, 0], [0, 0]]"
    by (simp add: take_rows_def final_code_table_def swapped_input_def)
  have a: "columns (in_reg_matrix swapped_input) [1, 0]
             = Inr [[- 5, 1], [- 1, 1], [2, 1], [4, 1]]"
    by (simp add: columns_def n_columns_def swapped_input_def demo_reg_matrix_def)
  from pruning_removes_first_position
         [OF c r a swapped_estimator, of demo_config demo_model] c
  show ?thesis
    by (simp add: demo_config_simps final_code_table_def swapped_input_def)
qed

section \<open>Forward selection\<close>















subsection \<open>A NaN tolerance\<close>


















section \<open>Tolerance and generator state in a fit\<close>

lemma select_terms_rng_only:
  "rng m1 = rng m2 \<Longrightarrow>
   map_sum id (\<lambda>(final, m'). (final, rng m', tol m', estimated_tolerance m', max_lag m'))
     (select_terms lib cfg inp y m1)
   = map_sum id (\<lambda>(final, m'). (final, rng m', tol m', estimated_tolerance m', max_lag m'))
     (select_terms lib cfg inp y m2)"
  unfolding select_terms_def Let_def
  by (auto split: sum.splits prod.splits)

lemma finish_fit_fields:
  "finish_fit lib cfg inp y_full m final = Inr m' \<Longrightarrow>
   rng m' = rng m \<and> tol m' = tol m \<and> estimated_tolerance m' = estimated_tolerance m
   \<and> max_lag m' = max_lag m"
  unfolding finish_fit_def by (auto split: sum.splits if_splits)

lemma finish_fit_independent:
  "rng m1 = rng m2 \<Longrightarrow> tol m1 = tol m2 \<Longrightarrow> estimated_tolerance m1 = estimated_tolerance m2 \<Longrightarrow>
   max_lag m1 = max_lag m2 \<Longrightarrow>
   finish_fit lib cfg inp y_full m1 final = finish_fit lib cfg inp y_full (m2 :: 'g er_model) final"
  unfolding finish_fit_def
  by (cases m1; cases m2) (auto split: sum.splits if_splits)

lemma forward_tolerance:
  "entropic_regression_forward lib cfg g R y = Inr (r, t, g') \<Longrightarrow>
   tolerance_estimator lib cfg g y = Inr (t, g')"
  unfolding entropic_regression_forward_def
  by (auto split: sum.splits prod.splits)

lemma permutation_estimates_rng:
  "permutation_estimates lib cfg n g y = Inr (ks, g') \<Longrightarrow> g' = (draw lib y ^^ n) g"
proof (induction n arbitrary: g ks)
  case 0
  then show ?case by simp
next
  case (Suc n)
  from Suc.prems obtain y_perm g1 v ks' where
    p: "permutation lib g y = (y_perm, g1)"
    and r: "permutation_estimates lib cfg n g1 y = Inr (ks', g')"
    by (auto split: prod.splits sum.splits)
  from p have "g1 = draw lib y g" by (simp add: draw_def)
  with Suc.IH [OF r] show ?case by (simp add: funpow_swap1)
qed

lemma tolerance_estimator_rng:
  "tolerance_estimator lib cfg g y = Inr (t, g') \<Longrightarrow> g' = (draw lib y ^^ cfg_n_perm cfg) g"
  unfolding tolerance_estimator_def
  by (auto split: sum.splits prod.splits dest: permutation_estimates_rng)

lemma select_terms_rng:
  assumes "select_terms lib cfg inp y m = Inr (final, m')"
  shows "rng m' = (draw lib y ^^ draws_per_fit cfg) (rng m)"
proof -
  from assms obtain ks g1 t1 r t2 g2 where
    e: "permutation_estimates lib cfg (cfg_n_perm cfg) (rng m) y = Inr (ks, g1)"
    and f: "(if \<not> cfg_skip_forward cfg
            then entropic_regression_forward lib cfg g1 (in_reg_matrix inp) y
            else Inr (([], False), t1, g1)) = Inr (r, t2, g2)"
    and m': "rng m' = g2"
    unfolding select_terms_def Let_def
    by (auto split: sum.splits prod.splits if_splits)
  from permutation_estimates_rng [OF e] have g1: "g1 = (draw lib y ^^ cfg_n_perm cfg) (rng m)" .
  show ?thesis
  proof (cases "cfg_skip_forward cfg")
    case True
    with f g1 m' show ?thesis by (simp add: draws_per_fit_def)
  next
    case False
    with f have "tolerance_estimator lib cfg g1 y = Inr (t2, g2)"
      by (simp add: forward_tolerance)
    from tolerance_estimator_rng [OF this] g1 m' False show ?thesis
      by (simp add: draws_per_fit_def mult_2 funpow_add)
  qed
qed

lemma fit_rng_only:
  assumes "rng m1 = rng (m2 :: 'g er_model)"
  shows "fit lib cfg m1 inp = fit lib cfg m2 inp"
proof (cases "in_y inp")
  case None
  then show ?thesis by (simp add: fit_def)
next
  case (Some y_full)
  let ?y = "drop (in_max_lag inp) y_full"
  note eq = select_terms_rng_only [OF assms, of lib cfg inp ?y]
  show ?thesis
  proof (cases "select_terms lib cfg inp ?y m1")
    case (Inl e)
    with eq have "select_terms lib cfg inp ?y m2 = Inl e"
      by (cases "select_terms lib cfg inp ?y m2") auto
    with Inl Some show ?thesis by (simp add: fit_def)
  next
    case (Inr r)
    obtain final m1' where r: "r = (final, m1')" by (cases r)
    with Inr eq obtain m2' where
      s2: "select_terms lib cfg inp ?y m2 = Inr (final, m2')"
      and f: "rng m1' = rng m2'" "tol m1' = tol m2'"
        "estimated_tolerance m1' = estimated_tolerance m2'" "max_lag m1' = max_lag m2'"
      by (cases "select_terms lib cfg inp ?y m2") auto
    from finish_fit_independent [OF f] Inr r s2 Some show ?thesis
      by (simp add: fit_def)
  qed
qed

lemma fit_rng:
  assumes "fit lib cfg m inp = Inr m'"
  shows "\<exists>y_full. in_y inp = Some y_full
           \<and> rng m' = (draw lib (drop (in_max_lag inp) y_full) ^^ draws_per_fit cfg) (rng m)"
proof -
  from assms obtain y_full final m1 where
    y: "in_y inp = Some y_full"
    and s: "select_terms lib cfg inp (drop (in_max_lag inp) y_full) m = Inr (final, m1)"
    and f: "finish_fit lib cfg inp y_full m1 final = Inr m'"
    unfolding fit_def by (auto split: option.splits sum.splits prod.splits)
  from finish_fit_fields [OF f] select_terms_rng [OF s] y show ?thesis by simp
qed

text \<open>
  Claim C7, as amended. What a fit returns is a function of the input, the configuration
  and the state of the instance's generator when the fit starts: two fits that start from
  equal generator states give the same result, exception or fitted model with the same
  \<open>final_model\<close>, \<open>theta\<close> and every other attribute, whatever earlier fits left in the
  two instances. A fit that returns leaves the generator \<open>2 n_perm\<close> permutation draws
  further (\<open>n_perm\<close> with the forward selector skipped), so a second fit of the same
  instance is a fit from that later state, not a repetition of the first.
\<close>

theorem fit_determined_by_generator_state:
  "(rng m1 = rng m2 \<longrightarrow> fit lib cfg m1 inp = fit lib cfg (m2 :: 'g er_model) inp)
   \<and> (fit lib cfg m inp = Inr m' \<longrightarrow>
        (\<exists>y_full. in_y inp = Some y_full
           \<and> rng m' = (draw lib (drop (in_max_lag inp) y_full) ^^ draws_per_fit cfg) (rng m)
           \<and> fit lib cfg m' inp = fit lib cfg (m\<lparr>rng := rng m'\<rparr>) inp))"
proof (intro conjI impI)
  assume "rng m1 = rng m2"
  then show "fit lib cfg m1 inp = fit lib cfg m2 inp" by (rule fit_rng_only)
next
  assume f: "fit lib cfg m inp = Inr m'"
  have "fit lib cfg m' inp = fit lib cfg (m\<lparr>rng := rng m'\<rparr>) inp"
    by (rule fit_rng_only) simp
  with fit_rng [OF f] show "\<exists>y_full. in_y inp = Some y_full
           \<and> rng m' = (draw lib (drop (in_max_lag inp) y_full) ^^ draws_per_fit cfg) (rng m)
           \<and> fit lib cfg m' inp = fit lib cfg (m\<lparr>rng := rng m'\<rparr>) inp" by blast
qed

theorem fit_determined_by_generator_state_witness:
  "fit demo_lib demo_config (demo_fitted\<lparr>rng := 0\<rparr>) demo_input = Inr demo_fitted
   \<and> rng demo_fitted = (draw demo_lib demo_y ^^ 2) 0
   \<and> fit demo_lib demo_config (demo_model\<lparr>rng := 2\<rparr>) demo_input = Inl IndexError"
proof -
  note C = fit_determined_by_generator_state [of _ _ demo_lib demo_config demo_input]
  have r: "rng (demo_fitted\<lparr>rng := 0\<rparr>) = rng demo_model"
    by (simp add: demo_model_def)
  have d: "draws_per_fit demo_config = 2"
    by (simp add: draws_per_fit_def demo_config_simps)
  have f2: "rng demo_fitted = 2" by (simp add: demo_fitted_def)
  from C [of "demo_fitted\<lparr>rng := 0\<rparr>" demo_model demo_model demo_fitted] r demo_fit
  have a: "fit demo_lib demo_config (demo_fitted\<lparr>rng := 0\<rparr>) demo_input = Inr demo_fitted"
    and b: "rng demo_fitted = (draw demo_lib demo_y ^^ 2) 0"
    and c: "fit demo_lib demo_config demo_fitted demo_input
              = fit demo_lib demo_config (demo_model\<lparr>rng := rng demo_fitted\<rparr>) demo_input"
    by (simp_all add: d demo_input_simps demo_model_def)
  from c demo_fit_again f2 have "fit demo_lib demo_config (demo_model\<lparr>rng := 2\<rparr>) demo_input
      = Inl IndexError" by simp
  with a b show ?thesis by simp
qed

text \<open>
  Claim C7 as stated fails for a second fit of the same instance: in the four-sample
  problem the first fit returns the model with \<open>final_model = [[2001, 0]]\<close> and
  \<open>theta = [0.5]\<close> and leaves the generator two draws further; the second fit, on the
  same input, draws other permutations, its forward selector stops with nothing selected
  and the fit raises IndexError.
\<close>

theorem refit_on_same_instance_differs:
  "fit demo_lib demo_config demo_model demo_input = Inr demo_fitted
   \<and> final_model demo_fitted = [[2001, 0]] \<and> theta demo_fitted = [1 / 2]
   \<and> fit demo_lib demo_config demo_fitted demo_input = Inl IndexError"
  using demo_fit demo_fit_again by (simp add: demo_fitted_def)


subsection \<open>Which tolerance the two phases use\<close>

text \<open>
  With the forward selector skipped, the tolerance that \<^verbatim>\<open>fit\<close> computes is the one the
  backward eliminator gets. Otherwise the forward selector's own estimate, drawn after
  it, replaces it for both phases.
\<close>

lemma select_terms_skip_forward:
  assumes "select_terms lib cfg inp y m = Inr (final, m')" and "cfg_skip_forward cfg"
  shows "tol m' = estimated_tolerance m'"
  using assms unfolding select_terms_def Let_def
  by (auto split: sum.splits prod.splits)

lemma select_terms_recomputes:
  assumes "select_terms lib cfg inp y m = Inr (final, m')" and "\<not> cfg_skip_forward cfg"
  shows "\<exists>ks g1 sel ok selected narrowed bw.
           permutation_estimates lib cfg (cfg_n_perm cfg) (rng m) y = Inr (ks, g1)
           \<and> quantile ks (cfg_q cfg) = Inr (estimated_tolerance m')
           \<and> entropic_regression_forward lib cfg g1 (in_reg_matrix inp) y
               = Inr ((sel, ok), tol m', rng m')
           \<and> tolerance_estimator lib cfg g1 y = Inr (tol m', rng m')
           \<and> columns (in_reg_matrix inp) selected = Inr narrowed
           \<and> entropic_regression_backward lib cfg (tol m') narrowed y [0..<length selected]
               = Inr bw
           \<and> compose_final selected bw = Inr final"
proof -
  from assms obtain ks g1 t1 sel ok t2 g2 selected narrowed bw where
    e: "permutation_estimates lib cfg (cfg_n_perm cfg) (rng m) y = Inr (ks, g1)"
    and q: "quantile ks (cfg_q cfg) = Inr t1"
    and f: "entropic_regression_forward lib cfg g1 (in_reg_matrix inp) y = Inr ((sel, ok), t2, g2)"
    and c: "columns (in_reg_matrix inp) selected = Inr narrowed"
    and b: "entropic_regression_backward lib cfg t2 narrowed y [0..<length selected] = Inr bw"
    and cf: "compose_final selected bw = Inr final"
    and m': "m' = m\<lparr>rng := g2, tol := t2, estimated_tolerance := t1,
                      max_lag := in_max_lag inp\<rparr>"
    unfolding select_terms_def Let_def
    by (auto split: sum.splits prod.splits)
  from m' have "tol m' = t2" "rng m' = g2" "estimated_tolerance m' = t1" by simp_all
  with e q f c b cf forward_tolerance [OF f] show ?thesis by blast
qed

text \<open>
  Claim C2. The tolerance should be computed once per fit and the stored
  \<open>estimated_tolerance\<close> should be the threshold of both phases. When the forward selector
  is skipped that is so. When it runs, its first statement estimates the tolerance again
  from fresh permutations and overwrites \<^verbatim>\<open>self.tol\<close>: the value computed by \<^verbatim>\<open>fit\<close> is
  used by neither phase and survives only as \<open>estimated_tolerance\<close>. In the
  four-sample problem the stored value is \<open>5/24\<close> and the threshold in use \<open>1/12\<close>.
\<close>

theorem fit_recomputes_tolerance:
  "fit demo_lib demo_config demo_model demo_input = Inr demo_fitted
   \<and> estimated_tolerance demo_fitted = Fin (5 / 24)
   \<and> tolerance_estimator demo_lib demo_config 0 demo_y = Inr (Fin (5 / 24), 1)
   \<and> entropic_regression_forward demo_lib demo_config 1 demo_reg_matrix demo_y
       = Inr (([1], True), Fin (1 / 12), 2)
   \<and> tol demo_fitted = Fin (1 / 12)"
  using demo_fit demo_forward demo_estimates_0
  by (simp add: demo_fitted_def tolerance_estimator_def demo_config_simps demo_quantile
        numeral_2_eq_2 del: permutation_estimates.simps)

theorem fit_recomputes_tolerance_witness:
  "estimated_tolerance demo_fitted \<noteq> tol demo_fitted"
  using fit_recomputes_tolerance by simp

section \<open>The tolerance as a quantile\<close>




















lemma demo_argpartition_indices: "argpartition_indices demo_lib"
proof -
  have "set (map snd (sort_key fst (zip a [0..<length a]))) \<subseteq> {..<length a}" for a :: "real list"
    by (auto dest: set_zip_rightD)
  then show ?thesis
    unfolding argpartition_indices_def by (auto simp: demo_lib_def argpartition_stable_def)
qed





section \<open>The conditional estimate\<close>

lemma fold_max_zero: "\<forall>x \<in> set xs. x = (0 :: real) \<Longrightarrow> fold max xs 0 = 0"
  by (induction xs) auto

lemma minkowski_self: "minkowski p u u = 0"
proof (cases p)
  case P_inf
  have "\<forall>x \<in> set (map2 (\<lambda>a b. \<bar>a - b\<bar>) u u). x = 0"
    by (auto simp: zip_same)
  then show ?thesis using P_inf by (simp add: fold_max_zero del: set_map)
next
  case (P_fin r)
  have "sum_list (map2 (\<lambda>a b. \<bar>a - b\<bar> powr r) u u) = 0"
    by (induction u) auto
  then show ?thesis using P_fin by simp
qed

lemma length_filter_split:
  assumes "i < n" and "P i"
  shows "length (filter P [0..<n]) = Suc (length (filter (\<lambda>j. j \<noteq> i \<and> P j) [0..<n]))"
proof -
  have "{j \<in> set [0..<n]. P j} = insert i {j \<in> set [0..<n]. j \<noteq> i \<and> P j}"
    using assms by auto
  moreover have "i \<notin> {j \<in> set [0..<n]. j \<noteq> i \<and> P j}" by simp
  ultimately have "card {j \<in> set [0..<n]. P j} = Suc (card {j \<in> set [0..<n]. j \<noteq> i \<and> P j})"
    by simp
  then show ?thesis by (simp add: distinct_length_filter Int_def conj_commute)
qed

lemma length_filter_nth:
  "length (filter Q xs) = length (filter (\<lambda>j. Q (xs ! j)) [0..<length xs])"
proof -
  have "filter Q (map (\<lambda>j. xs ! j) [0..<length xs])
          = map (\<lambda>j. xs ! j) (filter (\<lambda>j. Q (xs ! j)) [0..<length xs])"
    by (simp add: filter_map comp_def)
  then have "length (filter Q (map (\<lambda>j. xs ! j) [0..<length xs]))
          = length (filter (\<lambda>j. Q (xs ! j)) [0..<length xs])" by simp
  then show ?thesis by (simp add: map_nth)
qed

lemma length_knn_epsilon:
  "knn_epsilon lib p k joint = Inr epsilon \<Longrightarrow> length epsilon = length joint"
  unfolding knn_epsilon_def Let_def cdist_T_def
  by (auto split: if_splits)

lemma length_hstack: "length A = length B \<Longrightarrow> length (hstack A B) = length A"
  by (simp add: hstack_def)

section \<open>The radius vector\<close>

text \<open>
  The radius of sample \<open>i\<close> is the entry of its ascending row of distances at the column
  that \<^verbatim>\<open>argpartition\<close> places last among the first \<open>k + 1\<close> for the last row. With a
  selection that leaves an ascending row in place, that column is \<open>k\<close> and the radius is
  the distance to the \<open>k\<close>-th nearest other sample.
\<close>

lemma knn_epsilon_entry:
  assumes "knn_epsilon lib p k joint = Inr epsilon" and "i < length joint"
  shows "epsilon ! i =
           sort (map (\<lambda>a. minkowski p a (joint ! i)) joint)
             ! last (take (k + 1)
                 (argpartition lib (last (map sort (cdist_T p joint joint))) (k + 1)))"
  using assms unfolding knn_epsilon_def Let_def cdist_T_def
  by (auto split: if_splits)

lemma argpartition_stable_sorted:
  assumes "sorted a"
  shows "argpartition_stable a kth = [0..<length a]"
proof -
  have "sorted (map fst (zip a [0..<length a]))" using assms by simp
  then have "sort_key fst (zip a [0..<length a]) = zip a [0..<length a]"
    by (rule sort_key_id_if_sorted)
  then show ?thesis by (simp add: argpartition_stable_def)
qed

lemma knn_epsilon_stable:
  assumes ap: "argpartition lib = argpartition_stable"
    and k: "k + 1 < length joint" and i: "i < length joint"
  shows "\<exists>epsilon. knn_epsilon lib p k joint = Inr epsilon
           \<and> epsilon ! i = sort (map (\<lambda>a. minkowski p a (joint ! i)) joint) ! k"
proof -
  let ?S = "map sort (cdist_T p joint joint)"
  from k have ne: "?S \<noteq> []" by (auto simp: cdist_T_def)
  have ll: "length (last ?S) = length joint"
    using ne by (simp add: cdist_T_def last_map last_conv_nth)
  have srt: "sorted (last ?S)" using ne by (simp add: cdist_T_def last_map)
  have idx: "take (k + 1) (argpartition lib (last ?S) (k + 1)) = [0..<k + 1]"
    using k by (simp add: ap argpartition_stable_sorted [OF srt] ll take_upt)
  have lst: "last [0..<k + 1] = k" by simp
  have ok: "\<not> ([0..<k + 1] = [] \<or> (\<exists>j \<in> set [0..<k + 1]. length joint \<le> j))"
    using k by auto
  have run: "knn_epsilon lib p k joint = Inr (map (\<lambda>row. row ! k) ?S)"
    unfolding knn_epsilon_def Let_def idx lst using ne ll k ok by simp
  moreover have "map (\<lambda>row. row ! k) ?S ! i = sort (map (\<lambda>a. minkowski p a (joint ! i)) joint) ! k"
    using i by (simp add: cdist_T_def)
  ultimately show ?thesis by simp
qed

lemma same_epsilon_any:
  assumes "knn_epsilon lib P_inf (Suc 0) (hstack (hstack same_y same_y) same_y) = Inr epsilon"
  shows "epsilon = [0, 0, 0, 0]"
proof -
  let ?J = "hstack (hstack same_y same_y) same_y"
  let ?idx = "take (Suc 0 + 1) (argpartition lib [0, 0, 0, 0] (Suc 0 + 1))"
  have S: "map sort (cdist_T P_inf ?J ?J)
             = [[0, 0, 0, 0], [0, 0, 0, 0], [0, 0, 0, 0], [0, 0, 0, 0]]"
    by (simp add: hstack_def cdist_T_def same_y_def)
  have J: "length ?J = 4" by (simp add: hstack_def same_y_def)
  have z: "[0, 0, 0, 0 :: real] ! j = 0" if "j < 4" for j
    using that by (auto simp: nth_Cons' numeral_eq_Suc less_Suc_eq)
  from assms have ne: "?idx \<noteq> []" and bd: "\<forall>j \<in> set ?idx. j < 4"
    and e: "epsilon = map (\<lambda>row. row ! last ?idx)
              [[0, 0, 0, 0], [0, 0, 0, 0], [0, 0, 0, 0], [0, 0, 0, 0 :: real]]"
    unfolding knn_epsilon_def Let_def S J
    by (auto split: if_splits simp: not_le)
  from ne bd have "last ?idx < 4" using last_in_set by blast
  from z [OF this] e show ?thesis by simp
qed

lemma not_finite_fadd: "\<not> isfinite a \<Longrightarrow> \<not> isfinite (fadd a b)"
  by (cases a; cases b) auto

lemma not_finite_fsub: "\<not> isfinite a \<Longrightarrow> \<not> isfinite (fsub a b)"
  by (cases a; cases b) (auto simp: fsub_def)

lemma same_cmi_any:
  assumes "knn_epsilon lib P_inf (Suc 0) (hstack (hstack same_y same_y) same_y) = Inr epsilon"
    and "\<not> isfinite (psi lib 0)" and "isfinite (psi lib 1)"
  shows "conditional_mutual_information lib P_inf (Suc 0) same_y same_y same_y = Inr NaN"
proof -
  note e = same_epsilon_any [OF assms(1)]
  have n: "\<not> isfinite (fsub (fadd (psi lib 0) (psi lib 0)) (psi lib 0))"
    using assms(2) by (intro not_finite_fsub not_finite_fadd)
  from assms(3) obtain r where r: "psi lib 1 = Fin r" by (cases "psi lib 1") auto
  show ?thesis
    using assms(1) n unfolding e
    by (simp add: conditional_mutual_information_def hstack_def cdist_def count_within_def
        same_y_def finite_mean_def r fsub_def)
qed

section \<open>The counts of the conditional estimate\<close>

lemma fold_max_ge: "(a :: real) \<le> fold max xs a"
proof (induction xs arbitrary: a)
  case Nil
  then show ?case by simp
next
  case (Cons x xs)
  have "a \<le> max x a" by simp
  also have "\<dots> \<le> fold max xs (max x a)" by (rule Cons.IH)
  finally show ?case by simp
qed

lemma minkowski_nonneg: "0 \<le> minkowski p u v"
  by (cases p) (simp_all add: fold_max_ge)

lemma map2_abs_commute:
  "map2 (\<lambda>a b. g \<bar>a - b\<bar>) u v = map2 (\<lambda>a b. g \<bar>a - b :: real\<bar>) v u"
proof (induction u arbitrary: v)
  case Nil
  then show ?case by simp
next
  case (Cons a u)
  then show ?case by (cases v) (simp_all add: abs_minus_commute)
qed

lemma minkowski_sym: "minkowski p u v = minkowski p v u"
proof (cases p)
  case P_inf
  from map2_abs_commute [of "\<lambda>x. x" u v] show ?thesis using P_inf by simp
next
  case (P_fin r)
  from map2_abs_commute [of "\<lambda>x. x powr r" u v] show ?thesis using P_fin by simp
qed

lemma foldr_insort_comm:
  "foldr insort xs (insort (a :: real) zs) = insort a (foldr insort xs zs)"
  by (induction xs) (simp_all add: insort_left_comm)

lemma sort_append_Cons: "sort (xs @ a # ys) = insort (a :: real) (sort (xs @ ys))"
  by (simp add: sort_key_def foldr_insort_comm)

lemma sort_with_zero:
  assumes "\<forall>x \<in> set (xs @ ys). (0 :: real) \<le> x"
  shows "sort (xs @ 0 # ys) = 0 # sort (xs @ ys)"
proof -
  have "\<forall>x \<in> set (sort (xs @ ys)). 0 \<le> x" using assms by simp
  then have "insort 0 (sort (xs @ ys)) = 0 # sort (xs @ ys)"
    by (intro insort_is_Cons) simp
  then show ?thesis by (simp add: sort_append_Cons)
qed

lemma others_split:
  assumes "i < n"
  shows "[0..<n] = [0..<i] @ i # [Suc i..<n]"
    and "filter (\<lambda>j. j \<noteq> i) [0..<n] = [0..<i] @ [Suc i..<n]"
proof -
  from assms have "[0..<n] = [0..<i] @ [i..<n]"
    using upt_add_eq_append [of 0 i "n - i"] by simp
  with assms show s: "[0..<n] = [0..<i] @ i # [Suc i..<n]"
    by (simp add: upt_conv_Cons)
  have "filter (\<lambda>j. j \<noteq> i) ([0..<i] @ i # [Suc i..<n]) = [0..<i] @ [Suc i..<n]"
    by (auto intro!: filter_True)
  with s show "filter (\<lambda>j. j \<noteq> i) [0..<n] = [0..<i] @ [Suc i..<n]" by simp
qed

lemma sorted_row_kth:
  assumes i: "i < length J" and k: "1 \<le> k"
  shows "sort (map (\<lambda>a. minkowski p a (J ! i)) J) ! k = kth_neighbour_radius p k J ! i"
proof -
  let ?f = "\<lambda>j. minkowski p (J ! i) (J ! j)"
  let ?A = "map ?f [0..<i]" and ?B = "map ?f [Suc i..<length J]"
  have "(\<lambda>a. minkowski p a (J ! i)) = (\<lambda>a. minkowski p (J ! i) a)"
    by (rule ext) (rule minkowski_sym)
  then have "map (\<lambda>a. minkowski p a (J ! i)) J = map (\<lambda>a. minkowski p (J ! i) a) J"
    by (rule arg_cong)
  also have "\<dots> = map (\<lambda>a. minkowski p (J ! i) a) (map (\<lambda>j. J ! j) [0..<length J])"
    by (simp only: map_nth)
  also have "\<dots> = map ?f [0..<length J]" by (simp only: map_map comp_def)
  also have "\<dots> = ?A @ 0 # ?B"
    by (subst others_split(1) [OF i]) (simp add: minkowski_self)
  finally have row: "map (\<lambda>a. minkowski p a (J ! i)) J = ?A @ 0 # ?B" .
  have "\<forall>x \<in> set (?A @ ?B). 0 \<le> x" by (auto simp: minkowski_nonneg)
  from sort_with_zero [OF this] row
  have "sort (map (\<lambda>a. minkowski p a (J ! i)) J) = 0 # sort (?A @ ?B)" by simp
  moreover have "map ?f (filter (\<lambda>j. j \<noteq> i) [0..<length J]) = ?A @ ?B"
    by (simp add: others_split(2) [OF i])
  ultimately show ?thesis
    using i k by (simp add: kth_neighbour_radius_def nth_Cons')
qed

lemma knn_epsilon_kth_neighbour:
  assumes a: "argpartition_indices lib" and kl: "argpartition_kth_last lib k"
    and k: "1 \<le> k" and n: "k + 1 < length J"
  shows "knn_epsilon lib p k J = Inr (kth_neighbour_radius p k J)"
proof -
  let ?sd = "map sort (cdist_T p J J)"
  from n have ne: "J \<noteq> []" by auto
  then have sd: "?sd \<noteq> []" by (simp add: cdist_T_def)
  have lastrow: "last ?sd = sort (map (\<lambda>a. minkowski p a (last J)) J)"
    using ne by (simp add: cdist_T_def last_map)
  then have len: "length (last ?sd) = length J" and srt: "sorted (last ?sd)" by simp_all
  with n have kk: "k + 1 < length (last ?sd)" by simp
  from a kk have l: "length (argpartition lib (last ?sd) (k + 1)) = length (last ?sd)"
    and r: "\<forall>j \<in> set (argpartition lib (last ?sd) (k + 1)). j < length (last ?sd)"
    unfolding argpartition_indices_def by blast+
  let ?idx = "take (k + 1) (argpartition lib (last ?sd) (k + 1))"
  from l kk have i1: "?idx \<noteq> []" by auto
  have i2: "\<not> (\<exists>j \<in> set ?idx. length J \<le> j)"
    using r len by (auto dest!: in_set_takeD)
  from kl srt kk have lst: "last ?idx = k" unfolding argpartition_kth_last_def by blast
  from sd kk i1 i2 lst have run: "knn_epsilon lib p k J = Inr (map (\<lambda>row. row ! k) ?sd)"
    unfolding knn_epsilon_def Let_def by (simp add: not_le [symmetric] del: not_le)
  have "map (\<lambda>row. row ! k) ?sd = kth_neighbour_radius p k J"
  proof (rule nth_equalityI)
    show "length (map (\<lambda>row. row ! k) ?sd) = length (kth_neighbour_radius p k J)"
      by (simp add: cdist_T_def kth_neighbour_radius_def)
  next
    fix i assume "i < length (map (\<lambda>row. row ! k) ?sd)"
    then have i: "i < length J" by (simp add: cdist_T_def)
    then have "map (\<lambda>row. row ! k) ?sd ! i = sort (map (\<lambda>a. minkowski p a (J ! i)) J) ! k"
      by (simp add: cdist_T_def)
    with sorted_row_kth [OF i k]
    show "map (\<lambda>row. row ! k) ?sd ! i = kth_neighbour_radius p k J ! i" by simp
  qed
  with run show ?thesis by simp
qed

lemma count_within_radius_counts:
  assumes len: "length epsilon = length pts"
  shows "count_within (cdist p pts pts) epsilon = radius_counts p pts epsilon"
proof (rule nth_equalityI)
  show "length (count_within (cdist p pts pts) epsilon) = length (radius_counts p pts epsilon)"
    using len by (simp add: count_within_def cdist_def radius_counts_def neighbours_within_def)
next
  fix i
  assume "i < length (count_within (cdist p pts pts) epsilon)"
  with len have i: "i < length pts" by (simp add: count_within_def cdist_def)
  let ?P = "\<lambda>j. minkowski p (pts ! i) (pts ! j) < epsilon ! i"
  have cnt: "length (filter (\<lambda>d. d < epsilon ! i) (map (minkowski p (pts ! i)) pts))
          = length (filter ?P [0..<length pts])"
  proof -
    have "length (filter (\<lambda>d. d < epsilon ! i) (map (minkowski p (pts ! i)) pts))
          = length (filter (\<lambda>b. minkowski p (pts ! i) b < epsilon ! i) pts)"
      by (simp add: filter_map comp_def)
    also have "\<dots> = length (filter ?P [0..<length pts])" by (rule length_filter_nth)
    finally show ?thesis .
  qed
  show "count_within (cdist p pts pts) epsilon ! i = radius_counts p pts epsilon ! i"
  proof (cases "0 < epsilon ! i")
    case True
    then have Pi: "?P i" by (simp add: minkowski_self)
    from cnt length_filter_split [of i "length pts" ?P, OF i Pi]
    have "length (filter (\<lambda>d. d < epsilon ! i) (map (minkowski p (pts ! i)) pts))
            = Suc (length (filter (\<lambda>j. j \<noteq> i \<and> ?P j) [0..<length pts]))" by simp
    with True i len show ?thesis
      by (simp add: count_within_def cdist_def radius_counts_def neighbours_within_def)
  next
    case False
    have "\<not> ?P j" for j using False minkowski_nonneg [of p "pts ! i" "pts ! j"] by simp
    then have "filter ?P [0..<length pts] = []" by simp
    with cnt have "length (filter (\<lambda>d. d < epsilon ! i) (map (minkowski p (pts ! i)) pts)) = 0"
      by simp
    with False i len show ?thesis
      by (simp add: count_within_def cdist_def radius_counts_def neighbours_within_def)
  qed
qed

lemma radius_counts_positive:
  assumes "length epsilon = length pts" and "\<forall>e \<in> set epsilon. 0 < e"
  shows "radius_counts p pts epsilon = neighbours_within p pts epsilon"
proof (rule nth_equalityI)
  show "length (radius_counts p pts epsilon) = length (neighbours_within p pts epsilon)"
    using assms(1) by (simp add: radius_counts_def neighbours_within_def)
next
  fix i assume "i < length (radius_counts p pts epsilon)"
  with assms(1) have i: "i < length pts" by (simp add: radius_counts_def neighbours_within_def)
  with assms have "0 < epsilon ! i" by (metis nth_mem)
  with i assms(1) show "radius_counts p pts epsilon ! i = neighbours_within p pts epsilon ! i"
    by (simp add: radius_counts_def neighbours_within_def)
qed

lemma conditional_mutual_information_counts:
  assumes l: "length f1 = length y" "length f2 = length y"
    and eps: "knn_epsilon lib p k (hstack (hstack y f1) f2) = Inr epsilon"
  shows "conditional_mutual_information lib p k y f1 f2 =
           Inr (cmi_with_counts lib k (radius_counts p (hstack y f2) epsilon)
                  (radius_counts p (hstack f1 f2) epsilon) (radius_counts p f2 epsilon))"
proof -
  from length_knn_epsilon [OF eps] l have le: "length epsilon = length y"
    by (simp add: length_hstack)
  have "count_within (cdist p (hstack y f2) (hstack y f2)) epsilon
          = radius_counts p (hstack y f2) epsilon"
    using le l by (intro count_within_radius_counts) (simp add: length_hstack)
  moreover have "count_within (cdist p (hstack f1 f2) (hstack f1 f2)) epsilon
          = radius_counts p (hstack f1 f2) epsilon"
    using le l by (intro count_within_radius_counts) (simp add: length_hstack)
  moreover have "count_within (cdist p f2 f2) epsilon = radius_counts p f2 epsilon"
    using le l by (intro count_within_radius_counts) simp
  ultimately show ?thesis
    using eps l by (simp add: conditional_mutual_information_def cmi_with_counts_def)
qed

text \<open>
  Claim C5, as amended. For inputs of equal length, \<^verbatim>\<open>conditional_mutual_information\<close> is
  digamma(k) minus the mean over finite terms of
  \<open>digamma(y_f2 + 1) + digamma(f1_f2 + 1) - digamma(f2_f2 + 1)\<close>, where for every sample
  whose radius is positive the three counts are the numbers of other points strictly
  within the radius in the \<open>[y, f2]\<close>, \<open>[f1, f2]\<close> and \<open>f2\<close> spaces, and for every sample
  whose radius is zero each count is \<open>-1\<close>. This holds for whatever radius vector the
  code computes. For \<open>1 \<le> k\<close> and more than \<open>k + 1\<close> samples, with an \<^verbatim>\<open>argpartition\<close> that
  returns valid indices and puts position \<open>k\<close> last among the first \<open>k + 1\<close> of an
  ascending row, the radius is the distance to the \<open>k\<close>-th nearest other sample in the
  joint space; when then every radius is positive, the estimate is the one the
  specification words.
\<close>

theorem conditional_mutual_information_radius_counts:
  assumes l: "length f1 = length y" "length f2 = length y"
  shows "(\<forall>epsilon. knn_epsilon lib p k (hstack (hstack y f1) f2) = Inr epsilon \<longrightarrow>
            conditional_mutual_information lib p k y f1 f2 =
              Inr (cmi_with_counts lib k (radius_counts p (hstack y f2) epsilon)
                     (radius_counts p (hstack f1 f2) epsilon) (radius_counts p f2 epsilon)))
         \<and> (argpartition_indices lib \<and> argpartition_kth_last lib k \<and> 1 \<le> k
              \<and> k + 1 < length y \<longrightarrow>
              knn_epsilon lib p k (hstack (hstack y f1) f2)
                = Inr (kth_neighbour_radius p k (hstack (hstack y f1) f2))
              \<and> conditional_mutual_information lib p k y f1 f2 =
                  Inr (cmi_with_counts lib k
                         (radius_counts p (hstack y f2)
                            (kth_neighbour_radius p k (hstack (hstack y f1) f2)))
                         (radius_counts p (hstack f1 f2)
                            (kth_neighbour_radius p k (hstack (hstack y f1) f2)))
                         (radius_counts p f2
                            (kth_neighbour_radius p k (hstack (hstack y f1) f2))))
              \<and> ((\<forall>e \<in> set (kth_neighbour_radius p k (hstack (hstack y f1) f2)). 0 < e) \<longrightarrow>
                   conditional_mutual_information lib p k y f1 f2
                     = Inr (cmi_as_specified lib p k y f1 f2)))"
proof (intro conjI allI impI)
  fix epsilon
  assume "knn_epsilon lib p k (hstack (hstack y f1) f2) = Inr epsilon"
  from conditional_mutual_information_counts [OF l this]
  show "conditional_mutual_information lib p k y f1 f2 =
              Inr (cmi_with_counts lib k (radius_counts p (hstack y f2) epsilon)
                     (radius_counts p (hstack f1 f2) epsilon) (radius_counts p f2 epsilon))" .
next
  let ?J = "hstack (hstack y f1) f2"
  let ?e = "kth_neighbour_radius p k ?J"
  assume h: "argpartition_indices lib \<and> argpartition_kth_last lib k \<and> 1 \<le> k
              \<and> k + 1 < length y"
  from l have lj: "length ?J = length y" by (simp add: length_hstack)
  from h lj have eps: "knn_epsilon lib p k ?J = Inr ?e"
    by (intro knn_epsilon_kth_neighbour) simp_all
  then show "knn_epsilon lib p k ?J = Inr ?e" .
  from conditional_mutual_information_counts [OF l eps]
  show c: "conditional_mutual_information lib p k y f1 f2 =
            Inr (cmi_with_counts lib k (radius_counts p (hstack y f2) ?e)
                   (radius_counts p (hstack f1 f2) ?e) (radius_counts p f2 ?e))" .
  assume pos: "\<forall>e \<in> set ?e. 0 < e"
  have le: "length ?e = length y" using lj by (simp add: kth_neighbour_radius_def)
  have "radius_counts p (hstack y f2) ?e = neighbours_within p (hstack y f2) ?e"
    using le l pos by (intro radius_counts_positive) (simp_all add: length_hstack)
  moreover have "radius_counts p (hstack f1 f2) ?e = neighbours_within p (hstack f1 f2) ?e"
    using le l pos by (intro radius_counts_positive) (simp_all add: length_hstack)
  moreover have "radius_counts p f2 ?e = neighbours_within p f2 ?e"
    using le l pos by (intro radius_counts_positive) simp_all
  ultimately show "conditional_mutual_information lib p k y f1 f2
                     = Inr (cmi_as_specified lib p k y f1 f2)"
    using c by (simp add: cmi_as_specified_def Let_def)
qed


subsection \<open>Mixed and positive radii\<close>

lemma demo_argpartition_kth_last: "argpartition_kth_last demo_lib k"
  unfolding argpartition_kth_last_def
  by (auto simp: demo_lib_def argpartition_stable_sorted take_upt)

lemmas spec_eval =
  kth_neighbour_radius_def neighbours_within_def radius_counts_def cmi_with_counts_def
  cmi_as_specified_def hstack_def demo_lib_def psi_harmonic_def finite_mean_def the_real_def
  fsub_def Let_def upt_rec [of 0] upt_rec [of "Suc 0"] upt_rec [of "Suc (Suc 0)"]
  upt_rec [of "Suc (Suc (Suc 0))"] numeral_eq_Suc

lemma mixed_radius:
  "kth_neighbour_radius P_inf (Suc 0) (hstack (hstack mixed_y mixed_f1) demo_zeros) = [0, 0, 1, 1]"
  by (simp add: spec_eval mixed_y_def mixed_f1_def demo_zeros_def)

lemma mixed_counts:
  "cmi_with_counts demo_lib (Suc 0)
     (radius_counts P_inf (hstack mixed_y demo_zeros) [0, 0, 1, 1])
     (radius_counts P_inf (hstack mixed_f1 demo_zeros) [0, 0, 1, 1])
     (radius_counts P_inf demo_zeros [0, 0, 1, 1]) = Fin (1 / 3)"
  by (simp add: spec_eval mixed_y_def mixed_f1_def demo_zeros_def)

lemma mixed_cmi:
  "conditional_mutual_information demo_lib P_inf (Suc 0) mixed_y mixed_f1 demo_zeros
     = Inr (Fin (1 / 3))"
  by (simp add: estimator_eval mixed_y_def mixed_f1_def demo_zeros_def)

lemma mixed_specified:
  "cmi_as_specified demo_lib P_inf (Suc 0) mixed_y mixed_f1 demo_zeros = Fin (1 / 6)"
  by (simp add: spec_eval mixed_y_def mixed_f1_def demo_zeros_def)

lemma same_cmi:
  "conditional_mutual_information demo_lib P_inf (Suc 0) same_y same_y same_y = Inr NaN"
  by (simp add: estimator_eval same_y_def)

lemma same_specified:
  "cmi_as_specified demo_lib P_inf (Suc 0) same_y same_y same_y = Fin 0"
  by (simp add: spec_eval same_y_def)

lemma demo_radius:
  "kth_neighbour_radius P_inf (Suc 0) (hstack (hstack demo_y demo_fit_both) demo_fit_const)
     = [2, 167 / 100, 1, 1]"
  by (simp add: spec_eval demo_arrays)


theorem conditional_mutual_information_radius_counts_witness:
  "argpartition_indices demo_lib \<and> argpartition_kth_last demo_lib 1
   \<and> knn_epsilon demo_lib P_inf 1 (hstack (hstack mixed_y mixed_f1) demo_zeros)
       = Inr [0, 0, 1, 1]
   \<and> conditional_mutual_information demo_lib P_inf 1 mixed_y mixed_f1 demo_zeros
       = Inr (Fin (1 / 3))
   \<and> knn_epsilon demo_lib P_inf 1 (hstack (hstack demo_y demo_fit_both) demo_fit_const)
       = Inr [2, 167 / 100, 1, 1]
   \<and> cmi_as_specified demo_lib P_inf 1 demo_y demo_fit_both demo_fit_const = Fin (5 / 6)"
proof -
  have h: "argpartition_indices demo_lib \<and> argpartition_kth_last demo_lib (Suc 0)
             \<and> 1 \<le> Suc 0 \<and> Suc 0 + 1 < length mixed_y"
    using demo_argpartition_indices demo_argpartition_kth_last by (simp add: mixed_y_def)
  have l: "length mixed_f1 = length mixed_y" "length demo_zeros = length mixed_y"
    by (simp_all add: mixed_y_def mixed_f1_def demo_zeros_def)
  from conditional_mutual_information_radius_counts [OF l, of demo_lib P_inf "Suc 0"] h
  have e: "knn_epsilon demo_lib P_inf (Suc 0) (hstack (hstack mixed_y mixed_f1) demo_zeros)
             = Inr (kth_neighbour_radius P_inf (Suc 0)
                      (hstack (hstack mixed_y mixed_f1) demo_zeros))"
    and c: "conditional_mutual_information demo_lib P_inf (Suc 0) mixed_y mixed_f1 demo_zeros =
              Inr (cmi_with_counts demo_lib (Suc 0)
                     (radius_counts P_inf (hstack mixed_y demo_zeros)
                        (kth_neighbour_radius P_inf (Suc 0)
                           (hstack (hstack mixed_y mixed_f1) demo_zeros)))
                     (radius_counts P_inf (hstack mixed_f1 demo_zeros)
                        (kth_neighbour_radius P_inf (Suc 0)
                           (hstack (hstack mixed_y mixed_f1) demo_zeros)))
                     (radius_counts P_inf demo_zeros
                        (kth_neighbour_radius P_inf (Suc 0)
                           (hstack (hstack mixed_y mixed_f1) demo_zeros))))"
    by blast+
  have h2: "argpartition_indices demo_lib \<and> argpartition_kth_last demo_lib (Suc 0)
             \<and> 1 \<le> Suc 0 \<and> Suc 0 + 1 < length demo_y"
    using demo_argpartition_indices demo_argpartition_kth_last by (simp add: demo_y_def)
  have l2: "length demo_fit_both = length demo_y" "length demo_fit_const = length demo_y"
    by (simp_all add: demo_arrays)
  have pos: "\<forall>e \<in> set (kth_neighbour_radius P_inf (Suc 0)
                 (hstack (hstack demo_y demo_fit_both) demo_fit_const)). 0 < e"
    unfolding demo_radius by simp
  from conditional_mutual_information_radius_counts [OF l2, of demo_lib P_inf "Suc 0"] h2 pos
  have e2: "knn_epsilon demo_lib P_inf (Suc 0) (hstack (hstack demo_y demo_fit_both) demo_fit_const)
             = Inr (kth_neighbour_radius P_inf (Suc 0)
                      (hstack (hstack demo_y demo_fit_both) demo_fit_const))"
    and c2: "conditional_mutual_information demo_lib P_inf (Suc 0) demo_y demo_fit_both
               demo_fit_const
             = Inr (cmi_as_specified demo_lib P_inf (Suc 0) demo_y demo_fit_both demo_fit_const)"
    by blast+
  from c2 demo_cmi_drop_input
  have s: "cmi_as_specified demo_lib P_inf (Suc 0) demo_y demo_fit_both demo_fit_const
             = Fin (5 / 6)" by simp
  from e c e2 s demo_argpartition_indices demo_argpartition_kth_last [of "Suc 0"]
  show ?thesis by (simp add: mixed_radius mixed_counts demo_radius)
qed


text \<open>
  Claim C5 as stated fails where a radius is zero. With four identical samples every
  radius is zero; no distance is strictly below it, not even the point's own, so the
  code's counts are all \<open>-1\<close>, every term is non-finite and the estimate is NaN, while
  counting the other points strictly within the radius gives 0 for every sample and the
  estimate \<open>digamma(1) - digamma(1) = 0\<close>. With two coinciding samples out of four, the
  code drops their two terms and returns \<open>1/3\<close>; with their counts of 0 kept, the mean
  runs over four terms and the estimate is \<open>1/6\<close>.
\<close>

theorem radius_zero_counts_differ:
  "conditional_mutual_information demo_lib P_inf 1 same_y same_y same_y = Inr NaN
   \<and> cmi_as_specified demo_lib P_inf 1 same_y same_y same_y = Fin 0
   \<and> conditional_mutual_information demo_lib P_inf 1 mixed_y mixed_f1 demo_zeros
       = Inr (Fin (1 / 3))
   \<and> cmi_as_specified demo_lib P_inf 1 mixed_y mixed_f1 demo_zeros = Fin (1 / 6)"
  using same_cmi same_specified mixed_cmi mixed_specified by simp


end
